theory Spec2Isabelle
  imports Main "HOL-Library.AList"
begin

section \<open>Data model\<close>

text \<open>
  Values of open-schema fields (\<^verbatim>\<open>[key: string]: unknown\<close> in \<^verbatim>\<open>PinoLogObject\<close>) and of the
  payload \<^verbatim>\<open>Record<string, unknown>\<close>. Numbers are the integers (levels, process ids,
  timestamps and millisecond latencies are integers); an object is the list of its own
  properties in insertion order, each key occurring once.
\<close>

datatype jsval =
    JUndefined
  | JNull
  | JBool bool
  | JNum int
  | JStr string
  | JArr "jsval list"
  | JObj "(string \<times> jsval) list"

type_synonym jsobj = "(string \<times> jsval) list"

text \<open>\<^verbatim>\<open>types.ts\<close>: the three trace-correlation keys.\<close>

definition LOGGING_TRACE_KEY :: string where
  "LOGGING_TRACE_KEY = ''logging.googleapis.com/trace''"

definition LOGGING_SPAN_KEY :: string where
  "LOGGING_SPAN_KEY = ''logging.googleapis.com/spanId''"

definition LOGGING_SAMPLED_KEY :: string where
  "LOGGING_SAMPLED_KEY = ''logging.googleapis.com/trace_sampled''"

text \<open>\<^verbatim>\<open>CLOUD_LOGGING_SEVERITY\<close>, in the order of the source.\<close>

datatype CloudLoggingSeverity =
    EMERGENCY | ALERT | CRITICAL | ERROR | WARNING | NOTICE | INFO | DEBUG | DEFAULT

text \<open>
  The position of a severity in the platform's scale, \<^verbatim>\<open>DEFAULT\<close> lowest and
  \<^verbatim>\<open>EMERGENCY\<close> highest (the listing of \<^verbatim>\<open>CLOUD_LOGGING_SEVERITY\<close> read backwards).
\<close>

fun severity_rank :: "CloudLoggingSeverity \<Rightarrow> nat" where
  "severity_rank DEFAULT = 0"
| "severity_rank DEBUG = 1"
| "severity_rank INFO = 2"
| "severity_rank NOTICE = 3"
| "severity_rank WARNING = 4"
| "severity_rank ERROR = 5"
| "severity_rank CRITICAL = 6"
| "severity_rank ALERT = 7"
| "severity_rank EMERGENCY = 8"

text \<open>\<^verbatim>\<open>ServiceContext\<close> and the \<^verbatim>\<open>err\<close> object of a log record.\<close>

record ServiceContext =
  service :: "string option"
  version :: "string option"

record PinoErr =
  err_type :: "string option"
  err_message :: "string option"
  err_stack :: "string option"

text \<open>
  \<^verbatim>\<open>PinoLogObject\<close>: the declared fields with their declared types (\<open>None\<close> is an absent
  optional field), and \<open>extra\<close> for the properties admitted by the index signature.
\<close>

record PinoLogObject =
  level :: int
  time :: int
  msg :: "string option"
  pid :: "int option"
  hostname :: "string option"
  err :: "PinoErr option"
  logging_trace :: "string option"
  logging_spanId :: "string option"
  logging_trace_sampled :: "bool option"
  httpRequest :: "jsobj option"
  labels :: "(string \<times> string) list option"
  extra :: jsobj

section \<open>Severity mapping\<close>

text \<open>\<^verbatim>\<open>LoggingCommon.mapLevel\<close>.\<close>

definition mapLevel :: "int \<Rightarrow> CloudLoggingSeverity" where
  "mapLevel lvl =
     (if lvl \<ge> 60 then CRITICAL
      else if lvl \<ge> 50 then ERROR
      else if lvl \<ge> 40 then WARNING
      else if lvl \<ge> 30 then INFO
      else DEBUG)"

section \<open>JavaScript truthiness of optional fields\<close>

text \<open>
  \<^verbatim>\<open>if (x)\<close> on an optional string holds for a present, non-empty string; on an optional
  number for a present, non-zero number; on an optional object for a present object.
\<close>

definition truthy_str :: "string option \<Rightarrow> bool" where
  "truthy_str s = (case s of None \<Rightarrow> False | Some x \<Rightarrow> x \<noteq> [])"

definition truthy_num :: "int option \<Rightarrow> bool" where
  "truthy_num n = (case n of None \<Rightarrow> False | Some x \<Rightarrow> x \<noteq> 0)"

text \<open>The value of an optional string property read as \<^verbatim>\<open>unknown\<close>.\<close>

definition js_of_str :: "string option \<Rightarrow> jsval" where
  "js_of_str s = (case s of None \<Rightarrow> JUndefined | Some x \<Rightarrow> JStr x)"

section \<open>Trace agent bridge (\<^verbatim>\<open>trace.ts\<close>)\<close>

text \<open>
  \<^verbatim>\<open>TraceAgent\<close>: what the three accessors of the globally installed agent return at the
  moment of the call (\<open>getCurrentRootSpan\<close> as the root span's trace-context string).
\<close>

record TraceAgent =
  getCurrentContextId :: "string option"
  getWriterProjectId :: "string option"
  getCurrentRootSpan :: "string option"

definition getCurrentTraceFromAgent :: "TraceAgent option \<Rightarrow> string option" where
  "getCurrentTraceFromAgent agent =
     (case agent of
        None \<Rightarrow> None
      | Some a \<Rightarrow>
          (case (getCurrentContextId a, getWriterProjectId a) of
             (Some traceId, Some projectId) \<Rightarrow>
               if traceId = [] \<or> projectId = [] then None
               else Some (''projects/'' @ projectId @ ''/traces/'' @ traceId)
           | _ \<Rightarrow> None))"

section \<open>Trace header parser (\<^verbatim>\<open>trace.ts\<close>)\<close>

text \<open>
  The character classes of \<^verbatim>\<open>/^([a-f0-9]+)(?:\/(\d+))?(?:;o=(\d))?$/i\<close>. Under the
  \<^verbatim>\<open>i\<close> flag \<^verbatim>\<open>[a-f0-9]\<close> also accepts \<^verbatim>\<open>A-F\<close> and the literal \<^verbatim>\<open>o\<close> also accepts
  \<^verbatim>\<open>O\<close>; \<^verbatim>\<open>\d\<close> is \<^verbatim>\<open>[0-9]\<close>.
\<close>

definition is_hex_digit :: "char \<Rightarrow> bool" where
  "is_hex_digit c = (c \<in> set ''0123456789abcdefABCDEF'')"

definition is_dec_digit :: "char \<Rightarrow> bool" where
  "is_dec_digit c = (c \<in> set ''0123456789'')"

definition is_letter_o :: "char \<Rightarrow> bool" where
  "is_letter_o c = (c = CHR ''o'' \<or> c = CHR ''O'')"

text \<open>
  The language of the pattern with its three capture groups, read off the regular
  expression: a non-empty run of hex digits, then optionally a slash and a non-empty run
  of decimal digits, then optionally \<^verbatim>\<open>;o=\<close> and one decimal digit, and nothing else.
\<close>

definition header_pattern :: "string \<Rightarrow> string \<Rightarrow> string option \<Rightarrow> string option \<Rightarrow> bool" where
  "header_pattern h traceId spanId traceSampled =
     (traceId \<noteq> [] \<and> list_all is_hex_digit traceId
      \<and> (case spanId of None \<Rightarrow> True | Some d \<Rightarrow> d \<noteq> [] \<and> list_all is_dec_digit d)
      \<and> (case traceSampled of None \<Rightarrow> True | Some f \<Rightarrow> length f = 1 \<and> list_all is_dec_digit f)
      \<and> (\<exists>oc. is_letter_o oc
            \<and> h = traceId
                @ (case spanId of None \<Rightarrow> [] | Some d \<Rightarrow> CHR ''/'' # d)
                @ (case traceSampled of None \<Rightarrow> [] | Some f \<Rightarrow> [CHR '';'', oc, CHR ''=''] @ f)))"

text \<open>
  \<^verbatim>\<open>header.match(...)\<close> as the matcher runs it: each quantifier takes the longest run
  it can, and the match succeeds when the input is then exhausted. Returns the groups
  \<^verbatim>\<open>[, traceId, spanId, traceSampled]\<close>, \<open>None\<close> for \<^verbatim>\<open>null\<close> (no match).
\<close>

definition match_span_group :: "string \<Rightarrow> string option \<times> string" where
  "match_span_group s =
     (case s of
        c # r \<Rightarrow>
          if c = CHR ''/'' \<and> takeWhile is_dec_digit r \<noteq> []
          then (Some (takeWhile is_dec_digit r), dropWhile is_dec_digit r)
          else (None, s)
      | [] \<Rightarrow> (None, s))"

definition match_sampled_group :: "string \<Rightarrow> string option \<times> string" where
  "match_sampled_group s =
     (case s of
        a # b # c # d # r \<Rightarrow>
          if a = CHR '';'' \<and> is_letter_o b \<and> c = CHR ''='' \<and> is_dec_digit d
          then (Some [d], r)
          else (None, s)
      | _ \<Rightarrow> (None, s))"

definition match_header :: "string \<Rightarrow> (string \<times> string option \<times> string option) option" where
  "match_header h =
     (let traceId = takeWhile is_hex_digit h;
          (spanId, r2) = match_span_group (dropWhile is_hex_digit h);
          (traceSampled, r3) = match_sampled_group r2
      in if traceId \<noteq> [] \<and> r3 = [] then Some (traceId, spanId, traceSampled) else None)"

record ParsedTrace =
  parsed_trace :: "string option"
  parsed_spanId :: "string option"
  parsed_sampled :: bool

definition parseTraceHeader :: "string \<Rightarrow> string \<Rightarrow> ParsedTrace" where
  "parseTraceHeader header projectId =
     (let result = \<lparr>parsed_trace = None, parsed_spanId = None, parsed_sampled = False\<rparr>
      in if header = [] \<or> projectId = [] then result
         else
           (case match_header header of
              None \<Rightarrow> result
            | Some (traceId, spanId, traceSampled) \<Rightarrow>
                (let result =
                       (if traceId \<noteq> []
                        then result\<lparr>parsed_trace :=
                               Some (''projects/'' @ projectId @ ''/traces/'' @ traceId)\<rparr>
                        else result);
                     result =
                       (if truthy_str spanId then result\<lparr>parsed_spanId := spanId\<rparr>
                        else result)
                 in result\<lparr>parsed_sampled := (traceSampled = Some ''1'')\<rparr>)))"

section \<open>Entry transformation engine (\<^verbatim>\<open>common.ts\<close>)\<close>

text \<open>
  A thrown value: an \<^verbatim>\<open>Error\<close> with its message, or some other value with its
  \<^verbatim>\<open>String(...)\<close> rendering. \<open>to_error\<close> is
  \<^verbatim>\<open>err instanceof Error ? err : new Error(String(err))\<close>.
\<close>

datatype thrown = IsError string | NotError string

fun to_error :: "thrown \<Rightarrow> thrown" where
  "to_error (IsError m) = IsError m"
| "to_error (NotError s) = IsError s"

text \<open>
  A \<^verbatim>\<open>Callback\<close> is user code: it is called with \<^verbatim>\<open>null\<close> (\<open>None\<close>) or an error, and
  returns (\<open>None\<close>) or throws.
\<close>

record callback =
  cb_name :: string
  cb_throws :: "thrown option \<Rightarrow> thrown option"

text \<open>\<^verbatim>\<open>LogEntry\<close> metadata and the \<^verbatim>\<open>Entry\<close> made by \<^verbatim>\<open>cloudLog.entry(metadata, data)\<close>.\<close>

record LogEntry =
  md_severity :: CloudLoggingSeverity
  md_timestamp :: "int option"
  md_labels :: "(string \<times> string) list option"
  md_trace :: "string option"
  md_spanId :: "string option"
  md_traceSampled :: "bool option"
  md_httpRequest :: "jsobj option"

record Entry =
  entry_metadata :: LogEntry
  entry_data :: jsobj

text \<open>
  The fields of a \<^verbatim>\<open>LoggingCommon\<close> instance. \<open>cloudLog\<close> is the sink's \<^verbatim>\<open>write\<close>: given
  the number of writes made on it before and the entry, it accepts (\<open>None\<close>) or rejects
  with a thrown value.
\<close>

record LoggingCommon =
  projectId :: "string option"
  serviceContext :: "ServiceContext option"
  common_labels :: "(string \<times> string) list option"
  prefix :: "string option"
  redirectToStdout :: bool
  useMessageField :: bool
  maxEntrySize :: nat
  defaultCallback :: "callback option"
  cloudLog :: "nat \<Rightarrow> Entry \<Rightarrow> thrown option"

text \<open>
  What the engine acts on: the ambient trace agent, the writes attempted on the sink and
  those it accepted, the callback invocations with their argument, and the lines written
  to the standard error stream.
\<close>

record world =
  trace_agent :: "TraceAgent option"
  attempted :: "Entry list"
  delivered :: "Entry list"
  cb_log :: "(string \<times> thrown option) list"
  stderr_log :: "thrown list"

text \<open>\<^verbatim>\<open>logObject.err?.stack\<close>\<close>

definition err_stack_of :: "PinoLogObject \<Rightarrow> string option" where
  "err_stack_of logObject = (case err logObject of None \<Rightarrow> None | Some e \<Rightarrow> err_stack e)"

definition formatMessage :: "LoggingCommon \<Rightarrow> PinoLogObject \<Rightarrow> string" where
  "formatMessage this logObject =
     (let message = (case msg logObject of None \<Rightarrow> [] | Some m \<Rightarrow> m);
          message =
            (case prefix this of
               Some p \<Rightarrow> if p \<noteq> [] then ''['' @ p @ ''] '' @ message else message
             | None \<Rightarrow> message)
      in case err_stack_of logObject of
           Some stack \<Rightarrow>
             if stack \<noteq> []
             then (if message \<noteq> [] then message @ [CHR 0x0A] @ stack else stack)
             else message
         | None \<Rightarrow> message)"

record TraceInfo =
  ti_trace :: "string option"
  ti_spanId :: "string option"
  ti_traceSampled :: "bool option"

definition extractTraceInfo :: "TraceAgent option \<Rightarrow> PinoLogObject \<Rightarrow> TraceInfo" where
  "extractTraceInfo agent logObject =
     (let result = \<lparr>ti_trace = None, ti_spanId = None, ti_traceSampled = None\<rparr>;
          result =
            (if truthy_str (logging_trace logObject)
             then result\<lparr>ti_trace := logging_trace logObject\<rparr> else result);
          result =
            (if truthy_str (logging_spanId logObject)
             then result\<lparr>ti_spanId := logging_spanId logObject\<rparr> else result);
          result =
            (if logging_trace_sampled logObject \<noteq> None
             then result\<lparr>ti_traceSampled := logging_trace_sampled logObject\<rparr> else result)
      in if \<not> truthy_str (ti_trace result)
         then (let agentTrace = getCurrentTraceFromAgent agent
               in if truthy_str agentTrace then result\<lparr>ti_trace := agentTrace\<rparr> else result)
         else result)"

text \<open>The \<^verbatim>\<open>excludeKeys\<close> set of \<^verbatim>\<open>buildMetadata\<close>.\<close>

definition excludeKeys :: "string list" where
  "excludeKeys =
     [''level'', ''time'', ''msg'', ''pid'', ''hostname'', ''err'',
      LOGGING_TRACE_KEY, LOGGING_SPAN_KEY, LOGGING_SAMPLED_KEY,
      ''httpRequest'', ''labels'']"

text \<open>
  \<^verbatim>\<open>Object.entries(logObject)\<close>: the declared fields that are present, then the fields of
  the index signature.
\<close>

definition opt_entry :: "string \<Rightarrow> jsval option \<Rightarrow> jsobj" where
  "opt_entry key v = (case v of None \<Rightarrow> [] | Some x \<Rightarrow> [(key, x)])"

definition js_of_err :: "PinoErr \<Rightarrow> jsval" where
  "js_of_err e =
     JObj (opt_entry ''type'' (map_option JStr (err_type e))
           @ opt_entry ''message'' (map_option JStr (err_message e))
           @ opt_entry ''stack'' (map_option JStr (err_stack e)))"

definition js_of_labels :: "(string \<times> string) list \<Rightarrow> jsval" where
  "js_of_labels ls = JObj (map (\<lambda>(k, v). (k, JStr v)) ls)"

definition Object_entries :: "PinoLogObject \<Rightarrow> jsobj" where
  "Object_entries logObject =
     [(''level'', JNum (level logObject)), (''time'', JNum (time logObject))]
     @ opt_entry ''msg'' (map_option JStr (msg logObject))
     @ opt_entry ''pid'' (map_option JNum (pid logObject))
     @ opt_entry ''hostname'' (map_option JStr (hostname logObject))
     @ opt_entry ''err'' (map_option js_of_err (err logObject))
     @ opt_entry LOGGING_TRACE_KEY (map_option JStr (logging_trace logObject))
     @ opt_entry LOGGING_SPAN_KEY (map_option JStr (logging_spanId logObject))
     @ opt_entry LOGGING_SAMPLED_KEY (map_option JBool (logging_trace_sampled logObject))
     @ opt_entry ''httpRequest'' (map_option JObj (httpRequest logObject))
     @ opt_entry ''labels'' (map_option js_of_labels (labels logObject))
     @ extra logObject"

text \<open>
  \<^verbatim>\<open>metadata[key] = value\<close> on the plain object \<^verbatim>\<open>const metadata = {}\<close>. The assignment
  adds or replaces an own property, except for the key \<^verbatim>\<open>__proto__\<close>: that one is an
  accessor inherited from \<^verbatim>\<open>Object.prototype\<close>, whose setter stores no own property
  (at most it replaces the prototype, which no own-property read, spread or
  serialisation of the payload sees).
\<close>

definition assign_property :: "string \<Rightarrow> jsval \<Rightarrow> jsobj \<Rightarrow> jsobj" where
  "assign_property key v obj = (if key = ''__proto__'' then obj else AList.update key v obj)"

text \<open>The copying loop of \<^verbatim>\<open>buildMetadata\<close>.\<close>

fun copy_entries :: "jsobj \<Rightarrow> jsobj \<Rightarrow> jsobj" where
  "copy_entries [] metadata = metadata"
| "copy_entries ((key, v) # rest) metadata =
     copy_entries rest
       (if key \<notin> set excludeKeys then assign_property key v metadata else metadata)"

definition buildMetadata :: "PinoLogObject \<Rightarrow> jsobj" where
  "buildMetadata logObject =
     (let metadata = copy_entries (Object_entries logObject) [];
          metadata =
            (case err logObject of
               Some e \<Rightarrow>
                 assign_property ''error''
                   (JObj [(''type'', js_of_str (err_type e)),
                          (''message'', js_of_str (err_message e))]) metadata
             | None \<Rightarrow> metadata);
          metadata =
            (if truthy_num (pid logObject)
             then assign_property ''pid'' (JNum (the (pid logObject))) metadata else metadata)
      in if truthy_str (hostname logObject)
         then assign_property ''hostname'' (JStr (the (hostname logObject))) metadata
         else metadata)"

text \<open>\<^verbatim>\<open>{ ...this.labels, ...logObject.labels }\<close>\<close>

definition spread :: "('k \<times> 'v) list option \<Rightarrow> ('k \<times> 'v) list \<Rightarrow> ('k \<times> 'v) list" where
  "spread src target =
     (case src of None \<Rightarrow> target | Some ps \<Rightarrow> fold (\<lambda>(k, v). AList.update k v) ps target)"

definition js_of_serviceContext :: "ServiceContext \<Rightarrow> jsval" where
  "js_of_serviceContext sc =
     JObj (opt_entry ''service'' (map_option JStr (service sc))
           @ opt_entry ''version'' (map_option JStr (version sc)))"

text \<open>
  \<^verbatim>\<open>writeLog\<close> up to \<^verbatim>\<open>this.cloudLog.entry(entryMetadata, entryData)\<close>: the payload
  \<open>entryData\<close> and the entry.
\<close>

definition writeLog_entryData :: "LoggingCommon \<Rightarrow> PinoLogObject \<Rightarrow> jsobj" where
  "writeLog_entryData this logObject =
     (let sev = mapLevel (level logObject);
          message = formatMessage this logObject;
          entryData = buildMetadata logObject;
          entryData =
            (if useMessageField this \<and> message \<noteq> []
             then assign_property ''message'' (JStr message) entryData else entryData)
      in case serviceContext this of
           Some sc \<Rightarrow>
             if (sev = ERROR \<or> sev = CRITICAL) \<and> truthy_str (err_stack_of logObject)
             then assign_property ''@type''
                    (JStr
                      ''type.googleapis.com/google.devtools.clouderrorreporting.v1beta1.ReportedErrorEvent'')
                    (assign_property ''serviceContext'' (js_of_serviceContext sc) entryData)
             else entryData
         | None \<Rightarrow> entryData)"

definition writeLog_entry :: "LoggingCommon \<Rightarrow> TraceAgent option \<Rightarrow> PinoLogObject \<Rightarrow> Entry" where
  "writeLog_entry this agent logObject =
     (let traceInfo = extractTraceInfo agent logObject;
          mergedLabels = spread (labels logObject) (spread (common_labels this) []);
          entryMetadata =
            \<lparr>md_severity = mapLevel (level logObject),
             md_timestamp = Some (time logObject),
             md_labels = (if length mergedLabels > 0 then Some mergedLabels else None),
             md_trace = ti_trace traceInfo,
             md_spanId = ti_spanId traceInfo,
             md_traceSampled = ti_traceSampled traceInfo,
             md_httpRequest = httpRequest logObject\<rparr>
      in \<lparr>entry_metadata = entryMetadata, entry_data = writeLog_entryData this logObject\<rparr>)"

text \<open>
  One \<^verbatim>\<open>this.cloudLog.write(entry)\<close>: the synchronous \<^verbatim>\<open>LogSync.write\<close> in stdout mode, the
  awaited \<^verbatim>\<open>Log.write\<close> otherwise. In both a failure of the write surfaces as a thrown value
  at the call.
\<close>

definition cloudLog_write :: "LoggingCommon \<Rightarrow> Entry \<Rightarrow> world \<Rightarrow> thrown option \<times> world" where
  "cloudLog_write this entry w =
     (let w1 = w\<lparr>attempted := attempted w @ [entry]\<rparr>
      in case cloudLog this (length (attempted w)) entry of
           None \<Rightarrow> (None, w1\<lparr>delivered := delivered w1 @ [entry]\<rparr>)
         | Some t \<Rightarrow> (Some t, w1))"

text \<open>\<^verbatim>\<open>if (cb) { cb(arg); }\<close>\<close>

definition invoke :: "callback option \<Rightarrow> thrown option \<Rightarrow> world \<Rightarrow> thrown option \<times> world" where
  "invoke cb arg w =
     (case cb of
        None \<Rightarrow> (None, w)
      | Some c \<Rightarrow> (cb_throws c arg, w\<lparr>cb_log := cb_log w @ [(cb_name c, arg)]\<rparr>))"

text \<open>Statement sequencing: the second statement runs unless the first has thrown.\<close>

definition and_then ::
  "thrown option \<times> world \<Rightarrow> (world \<Rightarrow> thrown option \<times> world) \<Rightarrow> thrown option \<times> world" where
  "and_then r f = (case r of (Some t, w) \<Rightarrow> (Some t, w) | (None, w) \<Rightarrow> f w)"

text \<open>
  \<^verbatim>\<open>writeLog\<close>: the result is \<open>None\<close> when the promise resolves and \<open>Some t\<close> when it rejects
  with \<open>t\<close>.
\<close>

definition writeLog ::
  "LoggingCommon \<Rightarrow> PinoLogObject \<Rightarrow> callback option \<Rightarrow> world \<Rightarrow> thrown option \<times> world" where
  "writeLog this logObject cb w =
     (let entry = writeLog_entry this (trace_agent w) logObject;
          tried =
            and_then
              (and_then
                 (if redirectToStdout this then cloudLog_write this entry w
                  else cloudLog_write this entry w)
                 (invoke cb None))
              (invoke (defaultCallback this) None)
      in case tried of
           (None, w') \<Rightarrow> (None, w')
         | (Some e, w') \<Rightarrow>
             (let error = to_error e
              in and_then
                   (and_then (invoke cb (Some error) w')
                      (invoke (defaultCallback this) (Some error)))
                   (\<lambda>w''. (Some error, w''))))"

text \<open>
  JavaScript's \<^verbatim>\<open>%\<close> on integers: the remainder has the sign of the dividend.
\<close>

definition js_rem :: "int \<Rightarrow> int \<Rightarrow> int" where
  "js_rem a b = sgn a * (\<bar>a\<bar> mod \<bar>b\<bar>)"

definition writeRequestLog_entry ::
  "LoggingCommon \<Rightarrow> jsobj \<Rightarrow> string option \<Rightarrow> string option \<Rightarrow> bool option \<Rightarrow> int option
     \<Rightarrow> Entry" where
  "writeRequestLog_entry this httpReq trc span sampled latencyMs =
     (let entryMetadata =
            \<lparr>md_severity = INFO,
             md_timestamp = None,
             md_labels = common_labels this,
             md_trace = trc,
             md_spanId = span,
             md_traceSampled = sampled,
             md_httpRequest =
               Some (AList.update ''latency''
                       (if truthy_num latencyMs
                        then JObj [(''seconds'', JNum (the latencyMs div 1000)),
                                   (''nanos'', JNum (js_rem (the latencyMs) 1000 * 1000000))]
                        else JUndefined)
                       httpReq)\<rparr>
      in \<lparr>entry_metadata = entryMetadata, entry_data = []\<rparr>)"

definition writeRequestLog ::
  "LoggingCommon \<Rightarrow> jsobj \<Rightarrow> string option \<Rightarrow> string option \<Rightarrow> bool option \<Rightarrow> int option
     \<Rightarrow> world \<Rightarrow> thrown option \<times> world" where
  "writeRequestLog this httpReq trc span sampled latencyMs w =
     (let entry = writeRequestLog_entry this httpReq trc span sampled latencyMs
      in if redirectToStdout this then cloudLog_write this entry w
         else cloudLog_write this entry w)"

section \<open>Transport adapter (\<^verbatim>\<open>transport.ts\<close>)\<close>

text \<open>\<^verbatim>\<open>console.error('pino-cloud-logging transport error:', err)\<close>\<close>

definition console_error :: "thrown \<Rightarrow> world \<Rightarrow> thrown option \<times> world" where
  "console_error e w = (None, w\<lparr>stderr_log := stderr_log w @ [e]\<rparr>)"

text \<open>The body of the \<^verbatim>\<open>for await\<close> loop: \<^verbatim>\<open>try { await writeLog(obj) } catch (err) { ... }\<close>.\<close>

definition transport_body :: "LoggingCommon \<Rightarrow> PinoLogObject \<Rightarrow> world \<Rightarrow> thrown option \<times> world" where
  "transport_body loggingCommon obj w =
     (case writeLog loggingCommon obj None w of
        (None, w') \<Rightarrow> (None, w')
      | (Some e, w') \<Rightarrow> console_error e w')"

text \<open>
  The stream handler of \<^verbatim>\<open>createTransport\<close> on a finite source: a body that throws would
  end the loop and reject the handler.
\<close>

fun createTransport :: "LoggingCommon \<Rightarrow> PinoLogObject list \<Rightarrow> world \<Rightarrow> thrown option \<times> world" where
  "createTransport loggingCommon [] w = (None, w)"
| "createTransport loggingCommon (obj # source) w =
     (case transport_body loggingCommon obj w of
        (Some e, w') \<Rightarrow> (Some e, w')
      | (None, w') \<Rightarrow> createTransport loggingCommon source w')"

section \<open>Sample inputs\<close>

text \<open>The record \<^verbatim>\<open>{level: 30, time: 1, msg: "x", foo: "bar"}\<close>.\<close>

definition example_record :: PinoLogObject where
  "example_record =
     \<lparr>level = 30, time = 1, msg = Some ''x'', pid = None, hostname = None, err = None,
      logging_trace = None, logging_spanId = None, logging_trace_sampled = None,
      httpRequest = None, labels = None, extra = [(''foo'', JStr ''bar'')]\<rparr>"

text \<open>
  An error-level record with process id, host name and an error:
  \<^verbatim>\<open>{level: 50, time: 1, msg: "x", pid: 42, hostname: "h",
    err: {type: "E", message: "boom", stack: "S"}, foo: "bar"}\<close>.
\<close>

definition record_with_pid :: PinoLogObject where
  "record_with_pid =
     \<lparr>level = 50, time = 1, msg = Some ''x'', pid = Some 42, hostname = Some ''h'',
      err = Some \<lparr>err_type = Some ''E'', err_message = Some ''boom'', err_stack = Some ''S''\<rparr>,
      logging_trace = None, logging_spanId = None, logging_trace_sampled = None,
      httpRequest = None, labels = None, extra = [(''foo'', JStr ''bar'')]\<rparr>"

text \<open>
  The same record with two more fields of its own, \<^verbatim>\<open>error: "mine"\<close> and
  \<^verbatim>\<open>__proto__: "p"\<close> (an own property, as \<^verbatim>\<open>JSON.parse\<close> makes it).
\<close>

definition record_with_special_fields :: PinoLogObject where
  "record_with_special_fields =
     record_with_pid\<lparr>extra :=
       [(''foo'', JStr ''bar''), (''error'', JStr ''mine''), (''__proto__'', JStr ''p'')]\<rparr>"

text \<open>
  An engine with default options and project id \<^verbatim>\<open>proj\<close>, writing to a sink that accepts
  every entry.
\<close>

definition example_engine :: LoggingCommon where
  "example_engine =
     \<lparr>projectId = Some ''proj'', serviceContext = None, common_labels = None, prefix = None,
      redirectToStdout = False, useMessageField = True, maxEntrySize = 250000,
      defaultCallback = None, cloudLog = (\<lambda>n e. None)\<rparr>"

text \<open>A trace agent with an active context \<^verbatim>\<open>abc\<close> in project \<^verbatim>\<open>proj\<close>.\<close>

definition example_agent :: TraceAgent where
  "example_agent =
     \<lparr>getCurrentContextId = Some ''abc'', getWriterProjectId = Some ''proj'',
      getCurrentRootSpan = Some ''abc/7;o=1''\<rparr>"

text \<open>The sample record with the three correlation fields set, and with empty ones.\<close>

definition record_with_trace :: PinoLogObject where
  "record_with_trace =
     example_record\<lparr>logging_trace := Some ''projects/p/traces/t1'',
       logging_spanId := Some ''9'', logging_trace_sampled := Some False\<rparr>"

definition record_with_empty_trace :: PinoLogObject where
  "record_with_empty_trace =
     example_record\<lparr>logging_trace := Some [], logging_spanId := Some [],
       logging_trace_sampled := Some False\<rparr>"

text \<open>
  The sample engine with a service context, a record that has fields named \<^verbatim>\<open>@type\<close> and
  \<^verbatim>\<open>serviceContext\<close> of its own, and the world before any write.
\<close>

definition engine_with_serviceContext :: LoggingCommon where
  "engine_with_serviceContext =
     example_engine\<lparr>serviceContext := Some \<lparr>service = Some ''svc'', version = None\<rparr>\<rparr>"

definition record_with_own_serviceContext :: PinoLogObject where
  "record_with_own_serviceContext =
     example_record\<lparr>extra :=
       [(''@type'',
         JStr
           ''type.googleapis.com/google.devtools.clouderrorreporting.v1beta1.ReportedErrorEvent''),
        (''serviceContext'', JObj [(''service'', JStr ''svc'')])]\<rparr>"

definition empty_world :: world where
  "empty_world =
     \<lparr>trace_agent = None, attempted = [], delivered = [], cb_log = [], stderr_log = []\<rparr>"

section \<open>Auxiliary notions\<close>

text \<open>Two worlds that differ in the callback log at most.\<close>

definition same_sink :: "world \<Rightarrow> world \<Rightarrow> bool" where
  "same_sink w w' \<longleftrightarrow> attempted w' = attempted w \<and> delivered w' = delivered w
     \<and> stderr_log w' = stderr_log w \<and> trace_agent w' = trace_agent w"

text \<open>
  A callback returns normally when it throws on no argument; an absent callback counts.
  \<open>invocation cb a\<close> is the entry that calling \<open>cb\<close> with \<open>a\<close> leaves in the callback log.
\<close>

definition returns_normally :: "callback option \<Rightarrow> bool" where
  "returns_normally cb = (case cb of None \<Rightarrow> True | Some c \<Rightarrow> (\<forall>a. cb_throws c a = None))"

definition invocation :: "callback option \<Rightarrow> thrown option \<Rightarrow> (string \<times> thrown option) list" where
  "invocation cb a = (case cb of None \<Rightarrow> [] | Some c \<Rightarrow> [(cb_name c, a)])"

section \<open>Sample callbacks and sinks\<close>






section \<open>Streams of writes\<close>

text \<open>
  Of the entries \<open>es\<close> handed to the sink one after the other, \<open>n\<close> writes having been
  made before: those the sink accepts, and the errors of those it rejects, both in order.
\<close>

fun accepted :: "LoggingCommon \<Rightarrow> nat \<Rightarrow> Entry list \<Rightarrow> Entry list" where
  "accepted lc n [] = []"
| "accepted lc n (e # es) =
     (case cloudLog lc n e of None \<Rightarrow> [e] | Some t \<Rightarrow> []) @ accepted lc (Suc n) es"

fun rejections :: "LoggingCommon \<Rightarrow> nat \<Rightarrow> Entry list \<Rightarrow> thrown list" where
  "rejections lc n [] = []"
| "rejections lc n (e # es) =
     (case cloudLog lc n e of None \<Rightarrow> [] | Some t \<Rightarrow> [to_error t]) @ rejections lc (Suc n) es"

text \<open>
  The sample engine on a sink that rejects its second write only, and a stream of three
  records.
\<close>

definition flaky_engine :: LoggingCommon where
  "flaky_engine =
     example_engine\<lparr>cloudLog :=
       (\<lambda>n e. if n = 1 then Some (NotError ''quota exceeded'') else None)\<rparr>"

definition three_records :: "PinoLogObject list" where
  "three_records = [example_record, record_with_pid, record_with_trace]"

text \<open>
  The request block that the middleware's \<^verbatim>\<open>buildHttpRequest\<close> makes for a request that
  finished within the millisecond it started (\<^verbatim>\<open>latencyMs = 0\<close>).
\<close>

definition finished_request :: jsobj where
  "finished_request =
     [(''requestMethod'', JStr ''GET''), (''status'', JNum 200),
      (''latency'', JObj [(''seconds'', JNum 0), (''nanos'', JNum 0)])]"

section \<open>Properties\<close>

text \<open>
  C2. For every integer level \<open>L\<close>, \<open>mapLevel L\<close> is \<open>CRITICAL\<close> if \<open>L \<ge> 60\<close>, \<open>ERROR\<close> if
  \<open>50 \<le> L < 60\<close>, \<open>WARNING\<close> if \<open>40 \<le> L < 50\<close>, \<open>INFO\<close> if \<open>30 \<le> L < 40\<close> and \<open>DEBUG\<close> if
  \<open>L < 30\<close>; hence a lower level never maps to a higher severity.
\<close>

theorem mapLevel_buckets_monotone:
  "(L \<ge> 60 \<longrightarrow> mapLevel L = CRITICAL)
   \<and> (50 \<le> L \<and> L < 60 \<longrightarrow> mapLevel L = ERROR)
   \<and> (40 \<le> L \<and> L < 50 \<longrightarrow> mapLevel L = WARNING)
   \<and> (30 \<le> L \<and> L < 40 \<longrightarrow> mapLevel L = INFO)
   \<and> (L < 30 \<longrightarrow> mapLevel L = DEBUG)
   \<and> (L' \<le> L \<longrightarrow> severity_rank (mapLevel L') \<le> severity_rank (mapLevel L))"
  by (simp add: mapLevel_def)

theorem mapLevel_buckets_monotone_witness:
  "(1000::int) \<ge> 60 \<and> mapLevel 1000 = CRITICAL
   \<and> (50::int) \<le> 59 \<and> (59::int) < 60 \<and> mapLevel 59 = ERROR
   \<and> (40::int) \<le> 40 \<and> (40::int) < 50 \<and> mapLevel 40 = WARNING
   \<and> (30::int) \<le> 35 \<and> (35::int) < 40 \<and> mapLevel 35 = INFO
   \<and> (0::int) < 30 \<and> mapLevel 0 = DEBUG
   \<and> (35::int) \<le> 59 \<and> severity_rank (mapLevel 35) \<le> severity_rank (mapLevel 59)"
  using mapLevel_buckets_monotone [of 1000 0] mapLevel_buckets_monotone [of 59 35]
    mapLevel_buckets_monotone [of 40 0] mapLevel_buckets_monotone [of 35 0]
    mapLevel_buckets_monotone [of 0 0]
  by simp

subsection \<open>The payload built by \<open>buildMetadata\<close>\<close>

lemmas record_eval =
  buildMetadata_def Object_entries_def opt_entry_def excludeKeys_def truthy_num_def
  truthy_str_def LOGGING_TRACE_KEY_def LOGGING_SPAN_KEY_def LOGGING_SAMPLED_KEY_def js_of_str_def
  assign_property_def

lemma map_of_assign_property:
  "map_of (assign_property key v obj) k =
     (if key = ''__proto__'' then map_of obj k else if k = key then Some v else map_of obj k)"
  by (simp add: assign_property_def update_conv')

lemma copy_entries_append:
  "copy_entries (es1 @ es2) m = copy_entries es2 (copy_entries es1 m)"
  by (induction es1 arbitrary: m) auto

lemma declared_keys_excluded:
  "key \<in> set excludeKeys \<Longrightarrow> copy_entries (opt_entry key v) m = m"
  by (simp add: opt_entry_def split: option.splits)

text \<open>The declared fields are all excluded, so the loop copies fields of \<open>extra\<close> only.\<close>

lemma copy_entries_Object_entries:
  "copy_entries (Object_entries logObject) m = copy_entries (extra logObject) m"
  by (simp add: Object_entries_def copy_entries_append declared_keys_excluded excludeKeys_def)

lemma map_of_copy_entries:
  "distinct (map fst es) \<Longrightarrow>
   map_of (copy_entries es m) k =
     (if k \<in> set excludeKeys \<or> k = ''__proto__'' then map_of m k
      else case map_of es k of Some v \<Rightarrow> Some v | None \<Rightarrow> map_of m k)"
proof (induction es arbitrary: m)
  case Nil
  then show ?case by simp
next
  case (Cons e es)
  obtain key v where e: "e = (key, v)" by (cases e)
  from Cons.prems e have d: "distinct (map fst es)" and nk: "map_of es key = None"
    by (auto simp: map_of_eq_None_iff)
  show ?case
    using Cons.IH [OF d] nk e
    by (auto simp: map_of_assign_property split: option.splits)
qed

lemma map_of_copied:
  "distinct (map fst (extra r)) \<Longrightarrow>
   map_of (copy_entries (Object_entries r) []) k =
     (if k \<in> set excludeKeys \<or> k = ''__proto__'' then None else map_of (extra r) k)"
  by (simp add: copy_entries_Object_entries map_of_copy_entries split: option.splits)

text \<open>Every key of the payload, for a record whose own keys are distinct.\<close>

lemma map_of_buildMetadata:
  assumes "distinct (map fst (extra r))"
  shows "map_of (buildMetadata r) k =
     (if k = ''hostname'' \<and> truthy_str (hostname r) then map_option JStr (hostname r)
      else if k = ''pid'' \<and> truthy_num (pid r) then map_option JNum (pid r)
      else if k = ''error'' \<and> err r \<noteq> None
        then Some (JObj [(''type'', js_of_str (err_type (the (err r)))),
                         (''message'', js_of_str (err_message (the (err r))))])
      else if k \<in> set excludeKeys \<or> k = ''__proto__'' then None
      else map_of (extra r) k)"
  by (simp add: buildMetadata_def map_of_copied [OF assms] map_of_assign_property
      truthy_str_def truthy_num_def Let_def
      split: option.splits)

text \<open>
  C1 (as amended). For every log record (its own keys distinct, as in any object):
  every field of the input whose key is none of the eleven reserved keys is in the payload
  of \<open>buildMetadata\<close> unchanged, except a field named \<^verbatim>\<open>__proto__\<close>, which the payload
  never has, and except a field named \<^verbatim>\<open>error\<close> on a record that carries \<^verbatim>\<open>err\<close>; for a
  record that carries \<^verbatim>\<open>err\<close>
  the \<^verbatim>\<open>error\<close> field of the payload is the summary
  \<^verbatim>\<open>{type: err.type, message: err.message}\<close>. The payload never has the keys \<^verbatim>\<open>level\<close>,
  \<^verbatim>\<open>time\<close>, \<^verbatim>\<open>msg\<close>, \<^verbatim>\<open>err\<close>, \<^verbatim>\<open>logging.googleapis.com/trace\<close>,
  \<^verbatim>\<open>logging.googleapis.com/spanId\<close>, \<^verbatim>\<open>logging.googleapis.com/trace_sampled\<close>,
  \<^verbatim>\<open>httpRequest\<close> or \<^verbatim>\<open>labels\<close>; \<^verbatim>\<open>pid\<close> is in the payload, with the record's value, when
  the record carries it non-zero and is not in the payload otherwise, and likewise
  \<^verbatim>\<open>hostname\<close> when the record carries it non-empty; and the payload of
  \<^verbatim>\<open>{level: 30, time: 1, msg: "x", foo: "bar"}\<close> is exactly \<^verbatim>\<open>{foo: "bar"}\<close>.
\<close>

theorem buildMetadata_payload:
  assumes "distinct (map fst (extra r))"
  shows "(k \<notin> {''level'', ''time'', ''msg'', ''pid'', ''hostname'', ''err'',
               ''logging.googleapis.com/trace'', ''logging.googleapis.com/spanId'',
               ''logging.googleapis.com/trace_sampled'', ''httpRequest'', ''labels''}
          \<and> k \<noteq> ''__proto__'' \<and> (k = ''error'' \<longrightarrow> err r = None)
          \<and> map_of (extra r) k = Some v
           \<longrightarrow> map_of (buildMetadata r) k = Some v)
       \<and> (k' \<in> {''level'', ''time'', ''msg'', ''err'',
               ''logging.googleapis.com/trace'', ''logging.googleapis.com/spanId'',
               ''logging.googleapis.com/trace_sampled'', ''httpRequest'', ''labels''}
           \<longrightarrow> map_of (buildMetadata r) k' = None)
       \<and> (pid r = Some n \<and> n \<noteq> 0 \<longrightarrow> map_of (buildMetadata r) ''pid'' = Some (JNum n))
       \<and> (pid r = None \<or> pid r = Some 0 \<longrightarrow> map_of (buildMetadata r) ''pid'' = None)
       \<and> (hostname r = Some h \<and> h \<noteq> []
           \<longrightarrow> map_of (buildMetadata r) ''hostname'' = Some (JStr h))
       \<and> (hostname r = None \<or> hostname r = Some []
           \<longrightarrow> map_of (buildMetadata r) ''hostname'' = None)
       \<and> (err r = Some e
           \<longrightarrow> map_of (buildMetadata r) ''error'' =
                 Some (JObj [(''type'', case err_type e of None \<Rightarrow> JUndefined | Some x \<Rightarrow> JStr x),
                             (''message'',
                              case err_message e of None \<Rightarrow> JUndefined | Some x \<Rightarrow> JStr x)]))
       \<and> map_of (buildMetadata r) ''__proto__'' = None
       \<and> buildMetadata example_record = [(''foo'', JStr ''bar'')]"
proof -
  note keys = excludeKeys_def LOGGING_TRACE_KEY_def LOGGING_SPAN_KEY_def LOGGING_SAMPLED_KEY_def
  note all = map_of_buildMetadata [OF assms]
  have ex: "buildMetadata example_record = [(''foo'', JStr ''bar'')]"
    by (simp add: example_record_def record_eval)
  have a: "k \<notin> {''level'', ''time'', ''msg'', ''pid'', ''hostname'', ''err'',
               ''logging.googleapis.com/trace'', ''logging.googleapis.com/spanId'',
               ''logging.googleapis.com/trace_sampled'', ''httpRequest'', ''labels''}
          \<and> k \<noteq> ''__proto__'' \<and> (k = ''error'' \<longrightarrow> err r = None)
          \<and> map_of (extra r) k = Some v
           \<longrightarrow> map_of (buildMetadata r) k = Some v"
    by (auto simp: all keys)
  have b: "k' \<in> {''level'', ''time'', ''msg'', ''err'',
               ''logging.googleapis.com/trace'', ''logging.googleapis.com/spanId'',
               ''logging.googleapis.com/trace_sampled'', ''httpRequest'', ''labels''}
           \<longrightarrow> map_of (buildMetadata r) k' = None"
    by (auto simp: all keys)
  have c1: "pid r = Some n \<and> n \<noteq> 0 \<longrightarrow> map_of (buildMetadata r) ''pid'' = Some (JNum n)"
    by (simp add: all keys truthy_num_def)
  have c2: "pid r = None \<or> pid r = Some 0 \<longrightarrow> map_of (buildMetadata r) ''pid'' = None"
    by (auto simp: all keys truthy_num_def)
  have d1: "hostname r = Some h \<and> h \<noteq> []
           \<longrightarrow> map_of (buildMetadata r) ''hostname'' = Some (JStr h)"
    by (simp add: all keys truthy_str_def)
  have d2: "hostname r = None \<or> hostname r = Some []
           \<longrightarrow> map_of (buildMetadata r) ''hostname'' = None"
    by (auto simp: all keys truthy_str_def)
  have e: "err r = Some e
           \<longrightarrow> map_of (buildMetadata r) ''error'' =
                 Some (JObj [(''type'', case err_type e of None \<Rightarrow> JUndefined | Some x \<Rightarrow> JStr x),
                             (''message'',
                              case err_message e of None \<Rightarrow> JUndefined | Some x \<Rightarrow> JStr x)])"
    by (simp add: all js_of_str_def)
  have f: "map_of (buildMetadata r) ''__proto__'' = None"
    by (simp add: all keys)
  from a b c1 c2 d1 d2 e f ex show ?thesis by (intro conjI)
qed

theorem buildMetadata_payload_witness:
  "distinct (map fst (extra record_with_pid))
   \<and> map_of (extra record_with_pid) ''foo'' = Some (JStr ''bar'')
   \<and> map_of (buildMetadata record_with_pid) ''foo'' = Some (JStr ''bar'')
   \<and> map_of (buildMetadata record_with_pid) ''err'' = None
   \<and> pid record_with_pid = Some 42
   \<and> map_of (buildMetadata record_with_pid) ''pid'' = Some (JNum 42)
   \<and> hostname record_with_pid = Some ''h''
   \<and> map_of (buildMetadata record_with_pid) ''hostname'' = Some (JStr ''h'')
   \<and> err record_with_pid
       = Some \<lparr>err_type = Some ''E'', err_message = Some ''boom'', err_stack = Some ''S''\<rparr>
   \<and> map_of (buildMetadata record_with_pid) ''error''
       = Some (JObj [(''type'', JStr ''E''), (''message'', JStr ''boom'')])
   \<and> distinct (map fst (extra example_record))
   \<and> pid example_record = None
   \<and> map_of (buildMetadata example_record) ''pid'' = None
   \<and> hostname example_record = None
   \<and> map_of (buildMetadata example_record) ''hostname'' = None"
proof -
  have h: "distinct (map fst (extra record_with_pid))"
    by (simp add: record_with_pid_def)
  have g: "distinct (map fst (extra example_record))"
    by (simp add: example_record_def)
  show ?thesis
    using h g
      buildMetadata_payload [OF h, where k = "''foo''" and v = "JStr ''bar''" and k' = "''err''"
        and n = 42 and h = "''h''"
        and e = "\<lparr>err_type = Some ''E'', err_message = Some ''boom'', err_stack = Some ''S''\<rparr>"]
      buildMetadata_payload [OF g]
    by (simp add: record_with_pid_def example_record_def)
qed

text \<open>
  Without the three exceptions the statement fails, on one record: its \<^verbatim>\<open>pid: 42\<close>, a
  reserved key, is in the payload; its own \<^verbatim>\<open>error: "mine"\<close> is replaced by the summary of
  \<^verbatim>\<open>err\<close>; and its own \<^verbatim>\<open>__proto__: "p"\<close> is not in the payload.
\<close>

theorem buildMetadata_round_trip_counterexample:
  "map_of (buildMetadata record_with_special_fields) ''pid'' = Some (JNum 42)
   \<and> map_of (extra record_with_special_fields) ''error'' = Some (JStr ''mine'')
   \<and> map_of (buildMetadata record_with_special_fields) ''error''
       = Some (JObj [(''type'', JStr ''E''), (''message'', JStr ''boom'')])
   \<and> map_of (extra record_with_special_fields) ''__proto__'' = Some (JStr ''p'')
   \<and> map_of (buildMetadata record_with_special_fields) ''__proto__'' = None"
  by (simp add: record_with_special_fields_def record_with_pid_def record_eval)

subsection \<open>Message formatting\<close>

text \<open>
  C6. \<open>formatMessage\<close> starts from the record's \<^verbatim>\<open>msg\<close> (empty when absent); a non-empty
  configured prefix \<open>p\<close> puts \<^verbatim>\<open>[p] \<close> in front; a non-empty error stack is appended after
  one line feed when the message so far is non-empty, and is the whole message otherwise.
  Message \<^verbatim>\<open>m\<close> alone gives \<^verbatim>\<open>m\<close>, with prefix \<^verbatim>\<open>svc\<close> it gives \<^verbatim>\<open>[svc] m\<close>, and an empty
  message with error stack \<^verbatim>\<open>S\<close> gives exactly \<^verbatim>\<open>S\<close>.
\<close>

theorem formatMessage_cases:
  "((prefix this = None \<or> prefix this = Some [])
      \<and> (case err r of None \<Rightarrow> True
          | Some e \<Rightarrow> err_stack e = None \<or> err_stack e = Some [])
      \<longrightarrow> formatMessage this r = (case msg r of None \<Rightarrow> [] | Some m \<Rightarrow> m))
   \<and> (prefix this = Some p \<and> p \<noteq> []
      \<and> (case err r of None \<Rightarrow> True
          | Some e \<Rightarrow> err_stack e = None \<or> err_stack e = Some [])
      \<longrightarrow> formatMessage this r
            = [CHR ''[''] @ p @ [CHR '']'', CHR '' ''] @ (case msg r of None \<Rightarrow> [] | Some m \<Rightarrow> m))
   \<and> (err r = Some e \<and> err_stack e = Some s \<and> s \<noteq> []
      \<longrightarrow> formatMessage this r =
            (if formatMessage this (r\<lparr>err := None\<rparr>) \<noteq> []
             then formatMessage this (r\<lparr>err := None\<rparr>) @ [CHR 0x0A] @ s else s))
   \<and> formatMessage example_engine (example_record\<lparr>msg := Some ''m''\<rparr>) = ''m''
   \<and> formatMessage (example_engine\<lparr>prefix := Some ''svc''\<rparr>) (example_record\<lparr>msg := Some ''m''\<rparr>)
       = ''[svc] m''
   \<and> formatMessage example_engine
        (example_record\<lparr>msg := None,
           err := Some \<lparr>err_type = None, err_message = None, err_stack = Some ''S''\<rparr>\<rparr>) = ''S''"
  by (auto simp: formatMessage_def err_stack_of_def example_engine_def
      example_record_def Let_def split: option.splits)

theorem formatMessage_cases_witness:
  "prefix example_engine = None \<and> err example_record = None
   \<and> formatMessage example_engine example_record = ''x''
   \<and> prefix (example_engine\<lparr>prefix := Some ''svc''\<rparr>) = Some ''svc'' \<and> ''svc'' \<noteq> []
   \<and> formatMessage (example_engine\<lparr>prefix := Some ''svc''\<rparr>) example_record = ''[svc] x''
   \<and> err record_with_pid
       = Some \<lparr>err_type = Some ''E'', err_message = Some ''boom'', err_stack = Some ''S''\<rparr>
   \<and> formatMessage example_engine record_with_pid = [CHR ''x'', CHR 0x0A, CHR ''S'']
   \<and> formatMessage (example_engine\<lparr>prefix := Some ''svc''\<rparr>) record_with_pid
       = [CHR ''['', CHR ''s'', CHR ''v'', CHR ''c'', CHR '']'', CHR '' '', CHR ''x'', CHR 0x0A,
          CHR ''S'']"
proof -
  have 1: "formatMessage example_engine (record_with_pid\<lparr>err := None\<rparr>) = ''x''"
    using formatMessage_cases [of example_engine "record_with_pid\<lparr>err := None\<rparr>"]
    by (simp add: example_engine_def record_with_pid_def)
  have 2: "formatMessage (example_engine\<lparr>prefix := Some ''svc''\<rparr>) (record_with_pid\<lparr>err := None\<rparr>)
      = ''[svc] x''"
    using formatMessage_cases [of "example_engine\<lparr>prefix := Some ''svc''\<rparr>"
        "record_with_pid\<lparr>err := None\<rparr>" "''svc''"]
    by (simp add: example_engine_def record_with_pid_def)
  show ?thesis
    using 1 2 formatMessage_cases [of example_engine example_record]
      formatMessage_cases [of "example_engine\<lparr>prefix := Some ''svc''\<rparr>" example_record "''svc''"]
      formatMessage_cases [of example_engine record_with_pid _
        "\<lparr>err_type = Some ''E'', err_message = Some ''boom'', err_stack = Some ''S''\<rparr>" "''S''"]
      formatMessage_cases [of "example_engine\<lparr>prefix := Some ''svc''\<rparr>" record_with_pid _
        "\<lparr>err_type = Some ''E'', err_message = Some ''boom'', err_stack = Some ''S''\<rparr>" "''S''"]
    by (simp add: example_engine_def example_record_def record_with_pid_def)
qed

subsection \<open>Trace extraction\<close>

text \<open>The agent's trace name, when there is one, is never the empty string.\<close>

lemma getCurrentTraceFromAgent_truthy:
  "truthy_str (getCurrentTraceFromAgent agent) \<longleftrightarrow> getCurrentTraceFromAgent agent \<noteq> None"
  by (auto simp: getCurrentTraceFromAgent_def truthy_str_def split: option.splits)

text \<open>
  C7 (as amended). Each of the three correlation fields is resolved on its own: a trace
  name or span id carried on the record as a non-empty string is used verbatim, and so is
  a sampled flag carried on the record, true or false. A trace name that is absent or
  empty falls back to the agent's \<open>getCurrentTraceFromAgent\<close> (and stays absent when the
  agent has none); a span id that is absent or empty, and a sampled flag that is absent,
  stay absent from the result: they have no agent fallback.
\<close>

theorem extractTraceInfo_precedence:
  "(logging_trace r = Some t \<and> t \<noteq> [] \<longrightarrow> ti_trace (extractTraceInfo agent r) = Some t)
   \<and> (logging_spanId r = Some s \<and> s \<noteq> [] \<longrightarrow> ti_spanId (extractTraceInfo agent r) = Some s)
   \<and> (logging_trace_sampled r = Some b \<longrightarrow> ti_traceSampled (extractTraceInfo agent r) = Some b)
   \<and> (\<not> truthy_str (logging_trace r)
        \<longrightarrow> ti_trace (extractTraceInfo agent r) = getCurrentTraceFromAgent agent)
   \<and> (\<not> truthy_str (logging_spanId r) \<longrightarrow> ti_spanId (extractTraceInfo agent r) = None)
   \<and> (logging_trace_sampled r = None \<longrightarrow> ti_traceSampled (extractTraceInfo agent r) = None)"
  using getCurrentTraceFromAgent_truthy [of agent]
  by (auto simp: extractTraceInfo_def Let_def truthy_str_def)

theorem extractTraceInfo_precedence_witness:
  "logging_trace record_with_trace = Some ''projects/p/traces/t1'' \<and> ''projects/p/traces/t1'' \<noteq> []
   \<and> ti_trace (extractTraceInfo (Some example_agent) record_with_trace)
       = Some ''projects/p/traces/t1''
   \<and> logging_spanId record_with_trace = Some ''9'' \<and> ''9'' \<noteq> []
   \<and> ti_spanId (extractTraceInfo (Some example_agent) record_with_trace) = Some ''9''
   \<and> logging_trace_sampled record_with_trace = Some False
   \<and> ti_traceSampled (extractTraceInfo (Some example_agent) record_with_trace) = Some False
   \<and> \<not> truthy_str (logging_trace example_record)
   \<and> ti_trace (extractTraceInfo (Some example_agent) example_record)
       = Some ''projects/proj/traces/abc''
   \<and> \<not> truthy_str (logging_spanId example_record)
   \<and> ti_spanId (extractTraceInfo (Some example_agent) example_record) = None
   \<and> logging_trace_sampled example_record = None
   \<and> ti_traceSampled (extractTraceInfo (Some example_agent) example_record) = None"
  using extractTraceInfo_precedence
      [of record_with_trace "''projects/p/traces/t1''" "Some example_agent" "''9''" False]
    extractTraceInfo_precedence [of example_record _ "Some example_agent"]
  by (simp add: record_with_trace_def example_record_def example_agent_def truthy_str_def
      getCurrentTraceFromAgent_def)

text \<open>
  The claim as first stated fails on a record that carries the fields as empty strings:
  the trace name in the result is the agent's, not the record's, and the span id is
  absent.
\<close>

theorem extractTraceInfo_empty_field_counterexample:
  "logging_trace record_with_empty_trace = Some []
   \<and> ti_trace (extractTraceInfo (Some example_agent) record_with_empty_trace)
       = Some ''projects/proj/traces/abc''
   \<and> logging_spanId record_with_empty_trace = Some []
   \<and> ti_spanId (extractTraceInfo (Some example_agent) record_with_empty_trace) = None"
  by (simp add: record_with_empty_trace_def example_record_def example_agent_def truthy_str_def
      getCurrentTraceFromAgent_def extractTraceInfo_def)


subsection \<open>What \<open>writeLog\<close> does to the world\<close>

lemma invoke_fields:
  "attempted (snd (invoke cb a w)) = attempted w"
  "delivered (snd (invoke cb a w)) = delivered w"
  "stderr_log (snd (invoke cb a w)) = stderr_log w"
  "trace_agent (snd (invoke cb a w)) = trace_agent w"
  "cb_log (snd (invoke cb a w)) = cb_log w @ (case cb of None \<Rightarrow> [] | Some c \<Rightarrow> [(cb_name c, a)])"
  by (simp_all add: invoke_def split: option.splits)

lemma cloudLog_write_fields:
  "attempted (snd (cloudLog_write this e w)) = attempted w @ [e]"
  "delivered (snd (cloudLog_write this e w)) =
     delivered w @ (if cloudLog this (length (attempted w)) e = None then [e] else [])"
  "stderr_log (snd (cloudLog_write this e w)) = stderr_log w"
  "trace_agent (snd (cloudLog_write this e w)) = trace_agent w"
  "cb_log (snd (cloudLog_write this e w)) = cb_log w"
  "fst (cloudLog_write this e w) = cloudLog this (length (attempted w)) e"
  by (simp_all add: cloudLog_write_def Let_def split: option.splits)

lemma same_sink_refl: "same_sink w w"
  by (simp add: same_sink_def)

lemma same_sink_trans: "same_sink w w' \<Longrightarrow> same_sink w' w'' \<Longrightarrow> same_sink w w''"
  by (simp add: same_sink_def)

lemma same_sink_invoke: "same_sink w (snd (invoke cb a w))"
  by (simp add: same_sink_def invoke_fields)

lemma same_sink_and_then:
  assumes "same_sink w (snd r)" and "\<And>v. same_sink v (snd (f v))"
  shows "same_sink w (snd (and_then r f))"
proof (cases r)
  case (Pair a v)
  with assms(1) have 1: "same_sink w v" by simp
  show ?thesis
  proof (cases a)
    case None
    with Pair have "and_then r f = f v" by (simp add: and_then_def)
    with 1 assms(2) [of v] show ?thesis by (auto intro: same_sink_trans)
  next
    case (Some t)
    with Pair have "and_then r f = (Some t, v)" by (simp add: and_then_def)
    with 1 show ?thesis by simp
  qed
qed

text \<open>After its one write on the sink, \<open>writeLog\<close> touches the callback log only.\<close>

lemma writeLog_sink:
  "same_sink (snd (cloudLog_write this (writeLog_entry this (trace_agent w) r) w))
     (snd (writeLog this r cb w))"
proof -
  let ?e = "writeLog_entry this (trace_agent w) r"
  let ?w1 = "snd (cloudLog_write this ?e w)"
  let ?tried = "and_then (and_then (cloudLog_write this ?e w) (invoke cb None))
              (invoke (defaultCallback this) None)"
  have t: "same_sink ?w1 (snd ?tried)"
    by (intro same_sink_and_then same_sink_invoke same_sink_refl)
  show ?thesis
  proof (cases ?tried)
    case (Pair a v)
    show ?thesis
    proof (cases a)
      case None
      with Pair have "writeLog this r cb w = (None, v)"
        by (simp add: writeLog_def Let_def)
      with t Pair show ?thesis by simp
    next
      case (Some x)
      let ?c = "and_then (and_then (invoke cb (Some (to_error x)) v)
                      (invoke (defaultCallback this) (Some (to_error x))))
                   (\<lambda>w''. (Some (to_error x), w''))"
      from Some Pair have "writeLog this r cb w = ?c"
        by (simp add: writeLog_def Let_def)
      moreover have "same_sink v (snd ?c)"
        by (intro same_sink_and_then same_sink_invoke) (simp add: same_sink_refl)
      ultimately show ?thesis using t Pair by (auto intro: same_sink_trans)
    qed
  qed
qed

lemma writeLog_attempted:
  "attempted (snd (writeLog this r cb w)) = attempted w @ [writeLog_entry this (trace_agent w) r]"
  using writeLog_sink [of this w r cb] by (simp add: same_sink_def cloudLog_write_fields)

lemma writeLog_delivered:
  "delivered (snd (writeLog this r cb w)) =
     delivered w @ (if cloudLog this (length (attempted w)) (writeLog_entry this (trace_agent w) r) = None
        then [writeLog_entry this (trace_agent w) r] else [])"
  using writeLog_sink [of this w r cb] by (simp add: same_sink_def cloudLog_write_fields)

lemma writeLog_stderr:
  "stderr_log (snd (writeLog this r cb w)) = stderr_log w"
  using writeLog_sink [of this w r cb] by (simp add: same_sink_def cloudLog_write_fields)

lemma writeLog_trace_agent:
  "trace_agent (snd (writeLog this r cb w)) = trace_agent w"
  using writeLog_sink [of this w r cb] by (simp add: same_sink_def cloudLog_write_fields)

subsection \<open>Error-reporting augmentation\<close>

text \<open>The payload of the entry that \<open>writeLog\<close> hands to the sink.\<close>

lemma writeLog_payload:
  "entry_data (last (attempted (snd (writeLog this r cb w)))) = writeLog_entryData this r"
  by (simp add: writeLog_attempted writeLog_entry_def Let_def)

text \<open>The payload built when no service context is configured.\<close>

lemma base_payload:
  "writeLog_entryData (this\<lparr>serviceContext := None\<rparr>) r =
     (if useMessageField this \<and> formatMessage this r \<noteq> []
      then assign_property ''message'' (JStr (formatMessage this r)) (buildMetadata r)
      else buildMetadata r)"
  by (simp add: writeLog_entryData_def Let_def formatMessage_def)

lemma map_of_base_payload:
  "map_of (writeLog_entryData (this\<lparr>serviceContext := None\<rparr>) r) k =
     (if k = ''message'' \<and> useMessageField this \<and> formatMessage this r \<noteq> []
      then Some (JStr (formatMessage this r))
      else map_of (buildMetadata r) k)"
  by (simp add: base_payload map_of_assign_property)

text \<open>The payload in terms of the one built without a service context.\<close>

lemma augmented_payload:
  "writeLog_entryData this r =
     (case serviceContext this of
        Some sc \<Rightarrow>
          if (mapLevel (level r) = ERROR \<or> mapLevel (level r) = CRITICAL)
             \<and> truthy_str (err_stack_of r)
          then assign_property ''@type''
                 (JStr
                   ''type.googleapis.com/google.devtools.clouderrorreporting.v1beta1.ReportedErrorEvent'')
                 (assign_property ''serviceContext'' (js_of_serviceContext sc)
                    (writeLog_entryData (this\<lparr>serviceContext := None\<rparr>) r))
          else writeLog_entryData (this\<lparr>serviceContext := None\<rparr>) r
      | None \<Rightarrow> writeLog_entryData (this\<lparr>serviceContext := None\<rparr>) r)"
  unfolding base_payload by (simp add: writeLog_entryData_def Let_def)

lemma stack_present:
  "truthy_str (err_stack_of r) \<longleftrightarrow>
     (case err r of None \<Rightarrow> False
      | Some e \<Rightarrow> (case err_stack e of None \<Rightarrow> False | Some s \<Rightarrow> s \<noteq> []))"
  by (simp add: truthy_str_def err_stack_of_def split: option.splits)

text \<open>
  C3. For every record and engine configuration: when a service context is configured, the
  mapped severity is \<open>ERROR\<close> or \<open>CRITICAL\<close> and the record's error stack is non-empty, the
  payload of the entry written by \<open>writeLog\<close> carries the reportable-error \<^verbatim>\<open>@type\<close> and the
  configured service context; in every other combination of the three conditions nothing
  is added: the payload is the one built without a service context (so for a record with
  no \<^verbatim>\<open>@type\<close> and \<^verbatim>\<open>serviceContext\<close> fields of its own it has neither); and in all cases
  every other field of the payload is what it is without a service context, so the
  augmentation only adds the two.
\<close>

theorem error_reporting_augmentation:
  "(serviceContext this = Some sc
      \<and> (mapLevel (level r) = ERROR \<or> mapLevel (level r) = CRITICAL)
      \<and> err r = Some e \<and> err_stack e = Some s \<and> s \<noteq> []
    \<longrightarrow> map_of (entry_data (last (attempted (snd (writeLog this r cb w))))) ''@type''
          = Some (JStr
              ''type.googleapis.com/google.devtools.clouderrorreporting.v1beta1.ReportedErrorEvent'')
      \<and> map_of (entry_data (last (attempted (snd (writeLog this r cb w))))) ''serviceContext''
          = Some (JObj ((case service sc of None \<Rightarrow> [] | Some x \<Rightarrow> [(''service'', JStr x)])
                        @ (case version sc of None \<Rightarrow> [] | Some x \<Rightarrow> [(''version'', JStr x)]))))
   \<and> (serviceContext this = None
      \<or> \<not> (mapLevel (level r) = ERROR \<or> mapLevel (level r) = CRITICAL)
      \<or> (case err r of None \<Rightarrow> True
          | Some e' \<Rightarrow> err_stack e' = None \<or> err_stack e' = Some [])
    \<longrightarrow> entry_data (last (attempted (snd (writeLog this r cb w))))
          = writeLog_entryData (this\<lparr>serviceContext := None\<rparr>) r)
   \<and> (k \<noteq> ''@type'' \<and> k \<noteq> ''serviceContext''
    \<longrightarrow> map_of (entry_data (last (attempted (snd (writeLog this r cb w))))) k
          = map_of (writeLog_entryData (this\<lparr>serviceContext := None\<rparr>) r) k)
   \<and> ((serviceContext this = None
        \<or> \<not> (mapLevel (level r) = ERROR \<or> mapLevel (level r) = CRITICAL)
        \<or> (case err r of None \<Rightarrow> True
            | Some e' \<Rightarrow> err_stack e' = None \<or> err_stack e' = Some []))
      \<and> distinct (map fst (extra r))
      \<and> map_of (extra r) ''@type'' = None \<and> map_of (extra r) ''serviceContext'' = None
    \<longrightarrow> map_of (entry_data (last (attempted (snd (writeLog this r cb w))))) ''@type'' = None
      \<and> map_of (entry_data (last (attempted (snd (writeLog this r cb w))))) ''serviceContext''
          = None)"
proof -
  let ?base = "writeLog_entryData (this\<lparr>serviceContext := None\<rparr>) r"
  let ?P = "writeLog_entryData this r"
  let ?off = "serviceContext this = None
      \<or> \<not> (mapLevel (level r) = ERROR \<or> mapLevel (level r) = CRITICAL)
      \<or> (case err r of None \<Rightarrow> True
          | Some e' \<Rightarrow> err_stack e' = None \<or> err_stack e' = Some [])"
  have a: "serviceContext this = Some sc
      \<and> (mapLevel (level r) = ERROR \<or> mapLevel (level r) = CRITICAL)
      \<and> err r = Some e \<and> err_stack e = Some s \<and> s \<noteq> []
    \<longrightarrow> map_of ?P ''@type''
          = Some (JStr
              ''type.googleapis.com/google.devtools.clouderrorreporting.v1beta1.ReportedErrorEvent'')
      \<and> map_of ?P ''serviceContext''
          = Some (JObj ((case service sc of None \<Rightarrow> [] | Some x \<Rightarrow> [(''service'', JStr x)])
                        @ (case version sc of None \<Rightarrow> [] | Some x \<Rightarrow> [(''version'', JStr x)])))"
  proof (intro impI, elim conjE)
    assume sc: "serviceContext this = Some sc"
      and sev: "mapLevel (level r) = ERROR \<or> mapLevel (level r) = CRITICAL"
      and e: "err r = Some e" and st: "err_stack e = Some s" and ne: "s \<noteq> []"
    from e st ne have stack: "truthy_str (err_stack_of r)"
      by (simp add: stack_present)
    have P: "?P = assign_property ''@type''
                 (JStr
                   ''type.googleapis.com/google.devtools.clouderrorreporting.v1beta1.ReportedErrorEvent'')
                 (assign_property ''serviceContext'' (js_of_serviceContext sc) ?base)"
      using sev stack by (simp add: augmented_payload [of this r] sc)
    have 1: "map_of ?P ''@type''
          = Some (JStr
              ''type.googleapis.com/google.devtools.clouderrorreporting.v1beta1.ReportedErrorEvent'')"
      unfolding P by (simp add: map_of_assign_property)
    have 2: "map_of ?P ''serviceContext''
          = Some (JObj ((case service sc of None \<Rightarrow> [] | Some x \<Rightarrow> [(''service'', JStr x)])
                        @ (case version sc of None \<Rightarrow> [] | Some x \<Rightarrow> [(''version'', JStr x)])))"
      unfolding P
      by (simp add: map_of_assign_property js_of_serviceContext_def opt_entry_def
          split: option.splits)
    from 1 2 show "map_of ?P ''@type''
          = Some (JStr
              ''type.googleapis.com/google.devtools.clouderrorreporting.v1beta1.ReportedErrorEvent'')
      \<and> map_of ?P ''serviceContext''
          = Some (JObj ((case service sc of None \<Rightarrow> [] | Some x \<Rightarrow> [(''service'', JStr x)])
                        @ (case version sc of None \<Rightarrow> [] | Some x \<Rightarrow> [(''version'', JStr x)])))"
      by (rule conjI)
  qed
  have b: "?off \<longrightarrow> ?P = ?base"
  proof
    assume off: ?off
    show "?P = ?base"
    proof (cases "serviceContext this")
      case None
      then show ?thesis by (simp add: augmented_payload [of this r])
    next
      case (Some sc')
      with off have "\<not> ((mapLevel (level r) = ERROR \<or> mapLevel (level r) = CRITICAL)
          \<and> truthy_str (err_stack_of r))"
        by (auto simp: stack_present split: option.splits)
      with Some show ?thesis by (auto simp: augmented_payload [of this r])
    qed
  qed
  have c: "k \<noteq> ''@type'' \<and> k \<noteq> ''serviceContext'' \<longrightarrow> map_of ?P k = map_of ?base k"
  proof (intro impI, elim conjE)
    assume k: "k \<noteq> ''@type''" "k \<noteq> ''serviceContext''"
    have "map_of (assign_property ''@type'' v1 (assign_property ''serviceContext'' v2 ?base)) k
        = map_of ?base k" for v1 v2
      using k by (simp add: map_of_assign_property)
    then show "map_of ?P k = map_of ?base k"
      by (simp add: augmented_payload [of this r] split: option.splits)
  qed
  have d: "?off \<and> distinct (map fst (extra r))
      \<and> map_of (extra r) ''@type'' = None \<and> map_of (extra r) ''serviceContext'' = None
    \<longrightarrow> map_of ?P ''@type'' = None \<and> map_of ?P ''serviceContext'' = None"
  proof (intro impI, elim conjE)
    assume off: ?off and dist: "distinct (map fst (extra r))"
      and n1: "map_of (extra r) ''@type'' = None"
      and n2: "map_of (extra r) ''serviceContext'' = None"
    from off b have eq: "?P = ?base" by (rule rev_mp)
    have m1: "map_of (buildMetadata r) ''@type'' = None"
      using n1 by (simp add: map_of_buildMetadata [OF dist] excludeKeys_def
          LOGGING_TRACE_KEY_def LOGGING_SPAN_KEY_def LOGGING_SAMPLED_KEY_def)
    have m2: "map_of (buildMetadata r) ''serviceContext'' = None"
      using n2 by (simp add: map_of_buildMetadata [OF dist] excludeKeys_def
          LOGGING_TRACE_KEY_def LOGGING_SPAN_KEY_def LOGGING_SAMPLED_KEY_def)
    show "map_of ?P ''@type'' = None \<and> map_of ?P ''serviceContext'' = None"
      unfolding eq using m1 m2 by (simp add: map_of_base_payload)
  qed
  from a b c d show ?thesis
    unfolding writeLog_payload by (intro conjI)
qed

text \<open>Unfolding the payload on concrete inputs.\<close>

lemmas payload_eval =
  writeLog_entryData_def formatMessage_def err_stack_of_def mapLevel_def
  js_of_serviceContext_def

theorem error_reporting_augmentation_witness:
  "serviceContext engine_with_serviceContext = Some \<lparr>service = Some ''svc'', version = None\<rparr>
   \<and> mapLevel (level record_with_pid) = ERROR
   \<and> err record_with_pid
       = Some \<lparr>err_type = Some ''E'', err_message = Some ''boom'', err_stack = Some ''S''\<rparr>
   \<and> map_of (entry_data (last (attempted (snd
        (writeLog engine_with_serviceContext record_with_pid None empty_world))))) ''@type''
       = Some (JStr
           ''type.googleapis.com/google.devtools.clouderrorreporting.v1beta1.ReportedErrorEvent'')
   \<and> map_of (entry_data (last (attempted (snd
        (writeLog engine_with_serviceContext record_with_pid None empty_world))))) ''serviceContext''
       = Some (JObj [(''service'', JStr ''svc'')])
   \<and> map_of (entry_data (last (attempted (snd
        (writeLog engine_with_serviceContext record_with_pid None empty_world))))) ''foo''
       = Some (JStr ''bar'')
   \<and> mapLevel (level example_record) = INFO
   \<and> distinct (map fst (extra example_record))
   \<and> map_of (extra example_record) ''@type'' = None
   \<and> map_of (extra example_record) ''serviceContext'' = None
   \<and> entry_data (last (attempted (snd
        (writeLog engine_with_serviceContext example_record None empty_world))))
       = [(''foo'', JStr ''bar''), (''message'', JStr ''x'')]
   \<and> map_of (entry_data (last (attempted (snd
        (writeLog engine_with_serviceContext example_record None empty_world))))) ''@type'' = None
   \<and> map_of (entry_data (last (attempted (snd
        (writeLog engine_with_serviceContext example_record None empty_world))))) ''serviceContext''
       = None"
proof -
  have l1: "mapLevel (level record_with_pid) = ERROR"
    by (simp add: mapLevel_def record_with_pid_def)
  have l2: "mapLevel (level example_record) = INFO"
    by (simp add: mapLevel_def example_record_def)
  have b1: "map_of (writeLog_entryData (engine_with_serviceContext\<lparr>serviceContext := None\<rparr>)
      record_with_pid) ''foo'' = Some (JStr ''bar'')"
    by (simp add: engine_with_serviceContext_def example_engine_def record_with_pid_def
        payload_eval record_eval)
  have b2: "writeLog_entryData (engine_with_serviceContext\<lparr>serviceContext := None\<rparr>)
      example_record = [(''foo'', JStr ''bar''), (''message'', JStr ''x'')]"
    by (simp add: engine_with_serviceContext_def example_engine_def example_record_def
        payload_eval record_eval)
  show ?thesis
    using l1 l2 b1 b2
      error_reporting_augmentation [where this = engine_with_serviceContext
        and r = record_with_pid and cb = None and w = empty_world and k = "''foo''"
        and sc = "\<lparr>service = Some ''svc'', version = None\<rparr>" and s = "''S''"
        and e = "\<lparr>err_type = Some ''E'', err_message = Some ''boom'', err_stack = Some ''S''\<rparr>"]
      error_reporting_augmentation [where this = engine_with_serviceContext
        and r = example_record and cb = None and w = empty_world]
    by (simp add: engine_with_serviceContext_def example_engine_def record_with_pid_def
        example_record_def)
qed

text \<open>
  A record's own \<^verbatim>\<open>@type\<close> and \<^verbatim>\<open>serviceContext\<close> fields are payload fields like any
  other: at severity \<open>INFO\<close> and with no error they pass through unchanged.
\<close>

lemma own_fields_pass_through:
  "mapLevel (level record_with_own_serviceContext) = INFO
   \<and> err record_with_own_serviceContext = None
   \<and> entry_data (last (attempted (snd
        (writeLog engine_with_serviceContext record_with_own_serviceContext None empty_world))))
       = [(''@type'',
           JStr
             ''type.googleapis.com/google.devtools.clouderrorreporting.v1beta1.ReportedErrorEvent''),
          (''serviceContext'', JObj [(''service'', JStr ''svc'')]),
          (''message'', JStr ''x'')]"
  unfolding writeLog_payload
  by (simp add: engine_with_serviceContext_def example_engine_def
      record_with_own_serviceContext_def example_record_def payload_eval record_eval)

subsection \<open>Trace header parsing\<close>

text \<open>Scanning the longest run of a character class.\<close>

lemma takeWhile_all: "list_all P xs \<Longrightarrow> takeWhile P xs = xs"
  by (induction xs) auto

lemma span_append:
  assumes "list_all P xs" and "ys = [] \<or> \<not> P (hd ys)"
  shows "takeWhile P (xs @ ys) = xs" and "dropWhile P (xs @ ys) = ys"
proof -
  have tk: "takeWhile P ys = []" and dr: "dropWhile P ys = ys"
    using assms(2) by (cases ys; simp)+
  from assms(1) have al: "\<forall>x\<in>set xs. P x" by (simp add: list_all_iff)
  show "takeWhile P (xs @ ys) = xs"
    using al tk by (simp add: takeWhile_append2)
  show "dropWhile P (xs @ ys) = ys"
    using al dr by (simp add: dropWhile_append2)
qed

lemma not_hex: "\<not> is_hex_digit CHR ''/''" "\<not> is_hex_digit CHR '';''"
  by (simp_all add: is_hex_digit_def)

lemma not_dec: "\<not> is_dec_digit CHR ''/''" "\<not> is_dec_digit CHR '';''"
  by (simp_all add: is_dec_digit_def)

lemma takeWhile_list_all: "list_all P (takeWhile P xs)"
  by (induction xs) auto

lemma dropWhile_hd: "dropWhile P xs = [] \<or> \<not> P (hd (dropWhile P xs))"
  using hd_dropWhile [of P xs] by blast

text \<open>What the two optional groups consume.\<close>

lemma match_sampled_group_Some:
  "match_sampled_group s = (Some f, r) \<longleftrightarrow>
     (\<exists>oc d. is_letter_o oc \<and> is_dec_digit d \<and> f = [d] \<and> s = [CHR '';'', oc, CHR ''=''] @ f @ r)"
  by (auto simp: match_sampled_group_def split: list.splits)

lemma match_sampled_group_None:
  "match_sampled_group s = (None, r) \<longleftrightarrow>
     (r = s \<and> \<not> (\<exists>oc d r'. is_letter_o oc \<and> is_dec_digit d \<and> s = [CHR '';'', oc, CHR ''='', d] @ r'))"
  by (auto simp: match_sampled_group_def split: list.splits)

lemma match_span_group_Some:
  "match_span_group s = (Some d, r) \<longleftrightarrow>
     (d \<noteq> [] \<and> list_all is_dec_digit d \<and> s = CHR ''/'' # d @ r \<and> (r = [] \<or> \<not> is_dec_digit (hd r)))"
  (is "?L \<longleftrightarrow> ?R")
proof
  assume ?L
  then obtain t where s: "s = CHR ''/'' # t" and d: "takeWhile is_dec_digit t = d"
    and r: "dropWhile is_dec_digit t = r" and ne: "d \<noteq> []"
    by (auto simp: match_span_group_def split: list.splits if_splits)
  have 1: "list_all is_dec_digit d"
    unfolding d [symmetric] by (rule takeWhile_list_all)
  have 2: "t = d @ r"
    unfolding d [symmetric] r [symmetric] by simp
  have 3: "r = [] \<or> \<not> is_dec_digit (hd r)"
    unfolding r [symmetric] by (rule dropWhile_hd)
  from ne 1 2 3 s show ?R by simp
next
  assume R: ?R
  then have "takeWhile is_dec_digit (d @ r) = d" "dropWhile is_dec_digit (d @ r) = r"
    using span_append [of is_dec_digit d r] by auto
  with R show ?L by (simp add: match_span_group_def)
qed

lemma match_span_group_None:
  "match_span_group s = (None, r) \<longleftrightarrow>
     (r = s \<and> \<not> (\<exists>c t. s = CHR ''/'' # c # t \<and> is_dec_digit c))"
  by (auto simp: match_span_group_def takeWhile_eq_Nil_iff neq_Nil_conv split: list.splits)


text \<open>
  The matcher succeeds with groups \<open>(t, sp, fl)\<close> exactly on the strings of the pattern's
  language with those groups: the longest-run strategy loses no match.
\<close>

lemma match_header_unfold:
  "match_header h = Some (t, sp, fl) \<longleftrightarrow>
     (t = takeWhile is_hex_digit h \<and> t \<noteq> []
      \<and> (\<exists>r2. match_span_group (dropWhile is_hex_digit h) = (sp, r2)
             \<and> match_sampled_group r2 = (fl, [])))"
  by (auto simp: match_header_def Let_def split: prod.splits)

lemma header_pattern_match:
  assumes "header_pattern h t sp fl"
  shows "match_header h = Some (t, sp, fl)"
proof -
  from assms obtain oc where oc: "is_letter_o oc"
    and t: "t \<noteq> []" "list_all is_hex_digit t"
    and sp: "case sp of None \<Rightarrow> True | Some d \<Rightarrow> d \<noteq> [] \<and> list_all is_dec_digit d"
    and fl: "case fl of None \<Rightarrow> True | Some f \<Rightarrow> length f = 1 \<and> list_all is_dec_digit f"
    and h: "h = t @ (case sp of None \<Rightarrow> [] | Some d \<Rightarrow> CHR ''/'' # d)
                @ (case fl of None \<Rightarrow> [] | Some f \<Rightarrow> [CHR '';'', oc, CHR ''=''] @ f)"
    by (auto simp: header_pattern_def)
  let ?Y = "case fl of None \<Rightarrow> [] | Some f \<Rightarrow> [CHR '';'', oc, CHR ''=''] @ f"
  let ?X = "case sp of None \<Rightarrow> [] | Some d \<Rightarrow> CHR ''/'' # d"
  have Y: "?Y = [] \<or> hd ?Y = CHR '';''"
    by (cases fl) auto
  have XY: "?X @ ?Y = [] \<or> hd (?X @ ?Y) = CHR ''/'' \<or> hd (?X @ ?Y) = CHR '';''"
    using Y by (cases sp) auto
  then have XY': "?X @ ?Y = [] \<or> \<not> is_hex_digit (hd (?X @ ?Y))"
    using not_hex by auto
  have tk: "takeWhile is_hex_digit h = t" and dr: "dropWhile is_hex_digit h = ?X @ ?Y"
    using span_append [OF t(2) XY'] h by simp_all
  have Y': "?Y = [] \<or> \<not> is_dec_digit (hd ?Y)"
    using Y not_dec by auto
  have m1: "match_span_group (?X @ ?Y) = (sp, ?Y)"
  proof (cases sp)
    case None
    have "\<not> (\<exists>c u. ?Y = CHR ''/'' # c # u \<and> is_dec_digit c)"
      using Y by auto
    with None show ?thesis by (simp add: match_span_group_None)
  next
    case (Some d)
    with sp Y' show ?thesis by (simp add: match_span_group_Some)
  qed
  have m2: "match_sampled_group ?Y = (fl, [])"
  proof (cases fl)
    case None
    then show ?thesis by (simp add: match_sampled_group_def)
  next
    case (Some f)
    with fl obtain d where "f = [d]" "is_dec_digit d" by (cases f) auto
    with Some oc show ?thesis by (simp add: match_sampled_group_def)
  qed
  show ?thesis
    unfolding match_header_unfold tk dr using t(1) m1 m2 by blast
qed

lemma match_header_pattern:
  assumes "match_header h = Some (t, sp, fl)"
  shows "header_pattern h t sp fl"
proof -
  from assms obtain r2 where t: "t = takeWhile is_hex_digit h" "t \<noteq> []"
    and m1: "match_span_group (dropWhile is_hex_digit h) = (sp, r2)"
    and m2: "match_sampled_group r2 = (fl, [])"
    unfolding match_header_unfold by blast
  have hex: "list_all is_hex_digit t"
    unfolding t(1) by (rule takeWhile_list_all)
  have h: "h = t @ dropWhile is_hex_digit h"
    unfolding t(1) by simp
  have a: "(case sp of None \<Rightarrow> True | Some d \<Rightarrow> d \<noteq> [] \<and> list_all is_dec_digit d)
           \<and> dropWhile is_hex_digit h = (case sp of None \<Rightarrow> [] | Some d \<Rightarrow> CHR ''/'' # d) @ r2"
    using m1 by (cases sp) (simp_all add: match_span_group_Some match_span_group_None)
  have b: "\<exists>oc. is_letter_o oc
           \<and> (case fl of None \<Rightarrow> True | Some f \<Rightarrow> length f = 1 \<and> list_all is_dec_digit f)
           \<and> r2 = (case fl of None \<Rightarrow> [] | Some f \<Rightarrow> [CHR '';'', oc, CHR ''=''] @ f)"
  proof (cases fl)
    case None
    with m2 have "r2 = []" by (simp add: match_sampled_group_None)
    with None show ?thesis by (auto simp: is_letter_o_def)
  next
    case (Some f)
    with m2 show ?thesis by (auto simp: match_sampled_group_Some)
  qed
  from a b t(2) hex h show ?thesis
    unfolding header_pattern_def by metis
qed

lemma match_header_iff:
  "match_header h = Some (t, sp, fl) \<longleftrightarrow> header_pattern h t sp fl"
  using header_pattern_match match_header_pattern by blast


lemma parseTraceHeader_match:
  "parseTraceHeader h p =
     (if h = [] \<or> p = [] then \<lparr>parsed_trace = None, parsed_spanId = None, parsed_sampled = False\<rparr>
      else case match_header h of
             None \<Rightarrow> \<lparr>parsed_trace = None, parsed_spanId = None, parsed_sampled = False\<rparr>
           | Some (t, sp, fl) \<Rightarrow>
               \<lparr>parsed_trace = (if t \<noteq> [] then Some (''projects/'' @ p @ ''/traces/'' @ t) else None),
                parsed_spanId = (if truthy_str sp then sp else None),
                parsed_sampled = (fl = Some ''1'')\<rparr>)"
  by (simp add: parseTraceHeader_def Let_def split: option.splits)

text \<open>
  C5. For every header \<open>h\<close> and project id \<open>p\<close>, \<open>parseTraceHeader h p\<close> is a result (the
  function is total: it has no failing branch). It is
  \<^verbatim>\<open>{trace: null, spanId: null, sampled: false}\<close> whenever \<open>h\<close> or \<open>p\<close> is empty or \<open>h\<close> does not
  match \<^verbatim>\<open>^([a-f0-9]+)(?:\/(\d+))?(?:;o=(\d))?$\<close> case-insensitively; on a match with groups
  \<open>traceId\<close>, \<open>spanId\<close>, \<open>traceSampled\<close> its trace is \<^verbatim>\<open>projects/{p}/traces/{traceId}\<close>, its span
  id is the captured decimal string, or null when that group is absent, and it is sampled
  exactly when the captured flag digit is \<^verbatim>\<open>1\<close>.
\<close>

theorem parseTraceHeader_spec:
  "(h = [] \<or> p = []
      \<longrightarrow> parseTraceHeader h p = \<lparr>parsed_trace = None, parsed_spanId = None, parsed_sampled = False\<rparr>)
   \<and> ((\<forall>t sp fl. \<not> header_pattern h t sp fl)
      \<longrightarrow> parseTraceHeader h p = \<lparr>parsed_trace = None, parsed_spanId = None, parsed_sampled = False\<rparr>)
   \<and> (p \<noteq> [] \<and> header_pattern h traceId spanId traceSampled
      \<longrightarrow> parseTraceHeader h p =
            \<lparr>parsed_trace = Some (''projects/'' @ p @ ''/traces/'' @ traceId),
             parsed_spanId = spanId,
             parsed_sampled = (traceSampled = Some ''1'')\<rparr>)"
proof -
  have a: "(\<forall>t sp fl. \<not> header_pattern h t sp fl) \<longrightarrow> match_header h = None"
  proof
    assume n: "\<forall>t sp fl. \<not> header_pattern h t sp fl"
    show "match_header h = None"
    proof (cases "match_header h")
      case None
      then show ?thesis .
    next
      case (Some m)
      obtain t sp fl where "m = (t, sp, fl)" by (cases m)
      with Some n match_header_pattern [of h t sp fl] show ?thesis by simp
    qed
  qed
  have b: "p \<noteq> [] \<and> header_pattern h traceId spanId traceSampled
      \<longrightarrow> parseTraceHeader h p =
            \<lparr>parsed_trace = Some (''projects/'' @ p @ ''/traces/'' @ traceId),
             parsed_spanId = spanId,
             parsed_sampled = (traceSampled = Some ''1'')\<rparr>"
  proof
    assume h: "p \<noteq> [] \<and> header_pattern h traceId spanId traceSampled"
    then have m: "match_header h = Some (traceId, spanId, traceSampled)"
      by (simp add: header_pattern_match)
    from h have ne: "h \<noteq> []" "traceId \<noteq> []" by (auto simp: header_pattern_def)
    from h have sp: "(if truthy_str spanId then spanId else None) = spanId"
      by (auto simp: header_pattern_def truthy_str_def split: option.splits)
    show "parseTraceHeader h p =
            \<lparr>parsed_trace = Some (''projects/'' @ p @ ''/traces/'' @ traceId),
             parsed_spanId = spanId,
             parsed_sampled = (traceSampled = Some ''1'')\<rparr>"
      using h ne sp by (simp add: parseTraceHeader_match m)
  qed
  from a b show ?thesis by (simp add: parseTraceHeader_match)
qed

text \<open>Running the matcher on concrete headers.\<close>

lemmas header_eval =
  match_header_def match_span_group_def match_sampled_group_def is_hex_digit_def
  is_dec_digit_def is_letter_o_def

theorem parseTraceHeader_spec_witness:
  "parseTraceHeader [] ''proj''
     = \<lparr>parsed_trace = None, parsed_spanId = None, parsed_sampled = False\<rparr>
   \<and> (\<forall>t sp fl. \<not> header_pattern ''not-hex!!'' t sp fl)
   \<and> parseTraceHeader ''not-hex!!'' ''proj''
     = \<lparr>parsed_trace = None, parsed_spanId = None, parsed_sampled = False\<rparr>
   \<and> ''proj'' \<noteq> [] \<and> header_pattern ''abc123/456;o=1'' ''abc123'' (Some ''456'') (Some ''1'')
   \<and> parseTraceHeader ''abc123/456;o=1'' ''proj''
     = \<lparr>parsed_trace = Some ''projects/proj/traces/abc123'', parsed_spanId = Some ''456'',
        parsed_sampled = True\<rparr>
   \<and> header_pattern ''abc123'' ''abc123'' None None
   \<and> parseTraceHeader ''abc123'' ''proj''
     = \<lparr>parsed_trace = Some ''projects/proj/traces/abc123'', parsed_spanId = None,
        parsed_sampled = False\<rparr>"
proof -
  have "match_header ''not-hex!!'' = None"
    by (simp add: header_eval)
  then have n: "\<forall>t sp fl. \<not> header_pattern ''not-hex!!'' t sp fl"
    by (auto dest: header_pattern_match)
  have "match_header ''abc123/456;o=1'' = Some (''abc123'', Some ''456'', Some ''1'')"
    by (simp add: header_eval)
  then have m1: "header_pattern ''abc123/456;o=1'' ''abc123'' (Some ''456'') (Some ''1'')"
    by (rule match_header_pattern)
  have "match_header ''abc123'' = Some (''abc123'', None, None)"
    by (simp add: header_eval)
  then have m2: "header_pattern ''abc123'' ''abc123'' None None"
    by (rule match_header_pattern)
  show ?thesis
    using n m1 m2 parseTraceHeader_spec [of "[]" "''proj''"]
      parseTraceHeader_spec [of "''not-hex!!''" "''proj''"]
      parseTraceHeader_spec [of "''abc123/456;o=1''" "''proj''" "''abc123''" "Some ''456''" "Some ''1''"]
      parseTraceHeader_spec [of "''abc123''" "''proj''" "''abc123''" None None]
    by simp
qed


subsection \<open>Callbacks and propagation\<close>

lemma invoke_returns:
  "returns_normally cb \<Longrightarrow>
   invoke cb a w = (None, w\<lparr>cb_log := cb_log w @ invocation cb a\<rparr>)"
  by (simp add: invoke_def returns_normally_def invocation_def split: option.splits)

lemma writeLog_accepted:
  assumes "returns_normally cb" and "returns_normally (defaultCallback this)"
    and "cloudLog this (length (attempted w)) (writeLog_entry this (trace_agent w) r) = None"
  shows "fst (writeLog this r cb w) = None"
    and "cb_log (snd (writeLog this r cb w)) =
           cb_log w @ invocation cb None @ invocation (defaultCallback this) None"
  using assms(3)
  by (simp_all add: writeLog_def Let_def cloudLog_write_def and_then_def
      invoke_returns [OF assms(1)] invoke_returns [OF assms(2)])

lemma writeLog_rejected:
  assumes "returns_normally cb" and "returns_normally (defaultCallback this)"
    and "cloudLog this (length (attempted w)) (writeLog_entry this (trace_agent w) r) = Some t"
  shows "fst (writeLog this r cb w) = Some (to_error t)"
    and "cb_log (snd (writeLog this r cb w)) =
           cb_log w @ invocation cb (Some (to_error t))
             @ invocation (defaultCallback this) (Some (to_error t))"
  using assms(3)
  by (simp_all add: writeLog_def Let_def cloudLog_write_def and_then_def
      invoke_returns [OF assms(1)] invoke_returns [OF assms(2)])





subsection \<open>The transport adapter\<close>

text \<open>One turn of the loop: the write, and a line on standard error if it was rejected.\<close>

lemma transport_body_writeLog:
  "transport_body lc r w =
     (None, (snd (writeLog lc r None w))
        \<lparr>stderr_log := stderr_log w
           @ (case fst (writeLog lc r None w) of None \<Rightarrow> [] | Some t \<Rightarrow> [t])\<rparr>)"
  by (cases "writeLog lc r None w")
    (auto simp: transport_body_def console_error_def writeLog_stderr [of lc r None w, symmetric]
      split: option.splits)

lemma transport_body_fields:
  "fst (transport_body lc r w) = None"
  "attempted (snd (transport_body lc r w)) = attempted w @ [writeLog_entry lc (trace_agent w) r]"
  "delivered (snd (transport_body lc r w)) =
     delivered w @ (case cloudLog lc (length (attempted w)) (writeLog_entry lc (trace_agent w) r) of
                      None \<Rightarrow> [writeLog_entry lc (trace_agent w) r] | Some t \<Rightarrow> [])"
  "trace_agent (snd (transport_body lc r w)) = trace_agent w"
  "stderr_log (snd (transport_body lc r w)) =
     stderr_log w @ (case fst (writeLog lc r None w) of None \<Rightarrow> [] | Some t \<Rightarrow> [t])"
  by (simp_all add: transport_body_writeLog writeLog_attempted writeLog_delivered
      writeLog_trace_agent split: option.splits)

lemma returns_normally_None: "returns_normally None"
  by (simp add: returns_normally_def)

lemma writeLog_outcome:
  assumes "returns_normally (defaultCallback lc)"
  shows "fst (writeLog lc r None w) =
     map_option to_error (cloudLog lc (length (attempted w)) (writeLog_entry lc (trace_agent w) r))"
proof (cases "cloudLog lc (length (attempted w)) (writeLog_entry lc (trace_agent w) r)")
  case None
  with writeLog_accepted(1) [OF returns_normally_None assms] show ?thesis by simp
next
  case (Some t)
  with writeLog_rejected(1) [OF returns_normally_None assms] show ?thesis by simp
qed

text \<open>The loop never stops early, and runs through the source record by record.\<close>

lemma createTransport_Cons:
  "createTransport lc (r # rs) w = createTransport lc rs (snd (transport_body lc r w))"
  using transport_body_fields(1) [of lc r w]
  by (cases "transport_body lc r w") simp

lemma createTransport_append:
  "createTransport lc (pre @ post) w = createTransport lc post (snd (createTransport lc pre w))"
proof (induction pre arbitrary: w)
  case Nil
  then show ?case by simp
next
  case (Cons r pre)
  show ?case
    unfolding append_Cons createTransport_Cons by (rule Cons.IH)
qed

lemma createTransport_completes: "fst (createTransport lc rs w) = None"
proof (induction rs arbitrary: w)
  case Nil
  then show ?case by simp
next
  case (Cons r rs)
  show ?case unfolding createTransport_Cons by (rule Cons.IH)
qed

lemma createTransport_trace_agent:
  "trace_agent (snd (createTransport lc rs w)) = trace_agent w"
proof (induction rs arbitrary: w)
  case Nil
  then show ?case by simp
next
  case (Cons r rs)
  show ?case unfolding createTransport_Cons Cons.IH by (simp add: transport_body_fields)
qed

lemma createTransport_attempted:
  "attempted (snd (createTransport lc rs w)) =
     attempted w @ map (writeLog_entry lc (trace_agent w)) rs"
proof (induction rs arbitrary: w)
  case Nil
  then show ?case by simp
next
  case (Cons r rs)
  show ?case unfolding createTransport_Cons Cons.IH by (simp add: transport_body_fields)
qed

lemma createTransport_delivered:
  "delivered (snd (createTransport lc rs w)) =
     delivered w @ accepted lc (length (attempted w)) (map (writeLog_entry lc (trace_agent w)) rs)"
proof (induction rs arbitrary: w)
  case Nil
  then show ?case by simp
next
  case (Cons r rs)
  show ?case unfolding createTransport_Cons Cons.IH by (simp add: transport_body_fields)
qed

lemma createTransport_stderr:
  assumes "returns_normally (defaultCallback lc)"
  shows "stderr_log (snd (createTransport lc rs w)) =
     stderr_log w @ rejections lc (length (attempted w)) (map (writeLog_entry lc (trace_agent w)) rs)"
proof (induction rs arbitrary: w)
  case Nil
  then show ?case by simp
next
  case (Cons r rs)
  show ?case
    unfolding createTransport_Cons Cons.IH
    by (simp add: transport_body_fields writeLog_outcome [OF assms] split: option.splits)
qed


text \<open>A stream in which the sink rejects one write only.\<close>

lemma accepted_append:
  "accepted lc n (es @ fs) = accepted lc n es @ accepted lc (n + length es) fs"
  by (induction es arbitrary: n) simp_all

lemma rejections_append:
  "rejections lc n (es @ fs) = rejections lc n es @ rejections lc (n + length es) fs"
  by (induction es arbitrary: n) simp_all

lemma all_accepted:
  "(\<forall>i<length es. cloudLog lc (n + i) (es ! i) = None) \<Longrightarrow>
   accepted lc n es = es \<and> rejections lc n es = []"
proof (induction es arbitrary: n)
  case Nil
  then show ?case by simp
next
  case (Cons e es)
  from Cons.prems have hd: "cloudLog lc n e = None" by fastforce
  have "\<forall>i<length es. cloudLog lc (Suc n + i) (es ! i) = None"
  proof (intro allI impI)
    fix i assume "i < length es"
    then have "Suc i < length (e # es)" by simp
    with Cons.prems have "cloudLog lc (n + Suc i) ((e # es) ! Suc i) = None" by blast
    then show "cloudLog lc (Suc n + i) (es ! i) = None" by simp
  qed
  with Cons.IH [of "Suc n"] hd show ?case by simp
qed

lemma one_rejected:
  assumes "\<forall>i<length (pre @ e # post). i \<noteq> length pre \<longrightarrow>
             cloudLog lc (n + i) ((pre @ e # post) ! i) = None"
    and "cloudLog lc (n + length pre) e = Some t"
  shows "accepted lc n (pre @ e # post) = pre @ post"
    and "rejections lc n (pre @ e # post) = [to_error t]"
proof -
  have p: "\<forall>i<length pre. cloudLog lc (n + i) (pre ! i) = None"
  proof (intro allI impI)
    fix i assume i: "i < length pre"
    with assms(1) have "cloudLog lc (n + i) ((pre @ e # post) ! i) = None" by simp
    with i show "cloudLog lc (n + i) (pre ! i) = None" by (simp add: nth_append)
  qed
  have q: "\<forall>i<length post. cloudLog lc (Suc (n + length pre) + i) (post ! i) = None"
  proof (intro allI impI)
    fix i assume i: "i < length post"
    then have "Suc (length pre + i) < length (pre @ e # post)" by simp
    with assms(1)
    have "cloudLog lc (n + Suc (length pre + i)) ((pre @ e # post) ! Suc (length pre + i)) = None"
      by (metis add_Suc_right le_add1 less_Suc_eq_le less_irrefl_nat)
    moreover have "(pre @ e # post) ! Suc (length pre + i) = post ! i"
      by (metis add_Suc_right nth_Cons_Suc nth_append_length_plus)
    ultimately show "cloudLog lc (Suc (n + length pre) + i) (post ! i) = None"
      by (simp add: add.assoc)
  qed
  from all_accepted [OF p] all_accepted [OF q] assms(2)
  show "accepted lc n (pre @ e # post) = pre @ post"
    and "rejections lc n (pre @ e # post) = [to_error t]"
    by (simp_all add: accepted_append rejections_append)
qed

text \<open>
  C9. For every finite stream of records, the adapter runs to completion and propagates no
  failure; it calls \<open>writeLog\<close> for every record in arrival order; the entries delivered
  are those the sink accepts, in arrival order; when the \<open>writeLog\<close> call of a record
  rejects with \<open>t\<close>, the adapter writes \<open>t\<close> to standard error and goes on with the records
  after it. With a default callback that returns normally, standard error receives exactly
  the errors of the rejected writes, in order; and when the sink rejects the write of one
  record only, the other \<open>N - 1\<close> records are delivered in arrival order and standard
  error receives that one error.
\<close>

theorem transport_failure_isolation:
  "fst (createTransport lc rs w) = None
   \<and> attempted (snd (createTransport lc rs w)) =
       attempted w @ map (writeLog_entry lc (trace_agent w)) rs
   \<and> delivered (snd (createTransport lc rs w)) =
       delivered w
         @ accepted lc (length (attempted w)) (map (writeLog_entry lc (trace_agent w)) rs)
   \<and> (rs = pre @ r # post
        \<and> fst (writeLog lc r None (snd (createTransport lc pre w))) = Some t
      \<longrightarrow> createTransport lc rs w =
            createTransport lc post
              ((snd (writeLog lc r None (snd (createTransport lc pre w))))
                 \<lparr>stderr_log := stderr_log (snd (createTransport lc pre w)) @ [t]\<rparr>))
   \<and> (returns_normally (defaultCallback lc)
      \<longrightarrow> stderr_log (snd (createTransport lc rs w)) =
            stderr_log w
              @ rejections lc (length (attempted w)) (map (writeLog_entry lc (trace_agent w)) rs))
   \<and> (returns_normally (defaultCallback lc)
        \<and> rs = pre @ r # post
        \<and> cloudLog lc (length (attempted w) + length pre) (writeLog_entry lc (trace_agent w) r)
            = Some t'
        \<and> (\<forall>i<length rs. i \<noteq> length pre \<longrightarrow>
              cloudLog lc (length (attempted w) + i) (writeLog_entry lc (trace_agent w) (rs ! i))
                = None)
      \<longrightarrow> delivered (snd (createTransport lc rs w)) =
            delivered w @ map (writeLog_entry lc (trace_agent w)) (pre @ post)
          \<and> stderr_log (snd (createTransport lc rs w)) = stderr_log w @ [to_error t'])"
proof -
  let ?entry = "writeLog_entry lc (trace_agent w)"
  let ?n = "length (attempted w)"
  have d: "rs = pre @ r # post
        \<and> fst (writeLog lc r None (snd (createTransport lc pre w))) = Some t
      \<longrightarrow> createTransport lc rs w =
            createTransport lc post
              ((snd (writeLog lc r None (snd (createTransport lc pre w))))
                 \<lparr>stderr_log := stderr_log (snd (createTransport lc pre w)) @ [t]\<rparr>)"
    by (simp add: createTransport_append createTransport_Cons transport_body_writeLog)
  have e: "returns_normally (defaultCallback lc)
        \<and> rs = pre @ r # post
        \<and> cloudLog lc (?n + length pre) (?entry r) = Some t'
        \<and> (\<forall>i<length rs. i \<noteq> length pre \<longrightarrow> cloudLog lc (?n + i) (?entry (rs ! i)) = None)
      \<longrightarrow> delivered (snd (createTransport lc rs w)) = delivered w @ map ?entry (pre @ post)
          \<and> stderr_log (snd (createTransport lc rs w)) = stderr_log w @ [to_error t']"
  proof (intro impI, elim conjE)
    assume rn: "returns_normally (defaultCallback lc)"
      and rs: "rs = pre @ r # post"
      and rej: "cloudLog lc (?n + length pre) (?entry r) = Some t'"
      and acc: "\<forall>i<length rs. i \<noteq> length pre \<longrightarrow> cloudLog lc (?n + i) (?entry (rs ! i)) = None"
    have m: "map ?entry rs = map ?entry pre @ ?entry r # map ?entry post"
      unfolding rs by simp
    have "\<forall>i<length (map ?entry rs). i \<noteq> length (map ?entry pre) \<longrightarrow>
        cloudLog lc (?n + i) (map ?entry rs ! i) = None"
      using acc by simp
    then have 1: "\<forall>i<length (map ?entry pre @ ?entry r # map ?entry post).
        i \<noteq> length (map ?entry pre) \<longrightarrow>
        cloudLog lc (?n + i) ((map ?entry pre @ ?entry r # map ?entry post) ! i) = None"
      unfolding m .
    from rej have 2: "cloudLog lc (?n + length (map ?entry pre)) (?entry r) = Some t'" by simp
    have del: "delivered (snd (createTransport lc rs w)) = delivered w @ map ?entry (pre @ post)"
      unfolding createTransport_delivered m one_rejected(1) [OF 1 2] by simp
    have err: "stderr_log (snd (createTransport lc rs w)) = stderr_log w @ [to_error t']"
      unfolding createTransport_stderr [OF rn] m one_rejected(2) [OF 1 2] by simp
    from del err
    show "delivered (snd (createTransport lc rs w)) = delivered w @ map ?entry (pre @ post)
          \<and> stderr_log (snd (createTransport lc rs w)) = stderr_log w @ [to_error t']"
      by (rule conjI)
  qed
  have f: "returns_normally (defaultCallback lc)
      \<longrightarrow> stderr_log (snd (createTransport lc rs w)) =
            stderr_log w @ rejections lc ?n (map ?entry rs)"
    by (simp add: createTransport_stderr)
  from createTransport_completes [of lc rs w] createTransport_attempted [of lc rs w]
    createTransport_delivered [of lc rs w] d f e
  show ?thesis by (intro conjI)
qed


theorem transport_failure_isolation_witness:
  "returns_normally (defaultCallback flaky_engine)
   \<and> three_records = [example_record] @ record_with_pid # [record_with_trace]
   \<and> cloudLog flaky_engine 1 (writeLog_entry flaky_engine None record_with_pid)
       = Some (NotError ''quota exceeded'')
   \<and> fst (writeLog flaky_engine record_with_pid None
            (snd (createTransport flaky_engine [example_record] empty_world)))
       = Some (IsError ''quota exceeded'')
   \<and> fst (createTransport flaky_engine three_records empty_world) = None
   \<and> attempted (snd (createTransport flaky_engine three_records empty_world))
       = [writeLog_entry flaky_engine None example_record,
          writeLog_entry flaky_engine None record_with_pid,
          writeLog_entry flaky_engine None record_with_trace]
   \<and> delivered (snd (createTransport flaky_engine three_records empty_world))
       = [writeLog_entry flaky_engine None example_record,
          writeLog_entry flaky_engine None record_with_trace]
   \<and> stderr_log (snd (createTransport flaky_engine three_records empty_world))
       = [IsError ''quota exceeded'']"
proof -
  have rn: "returns_normally (defaultCallback flaky_engine)"
    by (simp add: returns_normally_def flaky_engine_def example_engine_def)
  have sp: "three_records = [example_record] @ record_with_pid # [record_with_trace]"
    by (simp add: three_records_def)
  have rej: "cloudLog flaky_engine (length (attempted empty_world) + length [example_record])
      (writeLog_entry flaky_engine (trace_agent empty_world) record_with_pid)
       = Some (NotError ''quota exceeded'')"
    by (simp add: flaky_engine_def empty_world_def)
  have acc: "\<forall>i<length three_records. i \<noteq> length [example_record] \<longrightarrow>
      cloudLog flaky_engine (length (attempted empty_world) + i)
        (writeLog_entry flaky_engine (trace_agent empty_world) (three_records ! i)) = None"
    by (simp add: flaky_engine_def empty_world_def)
  have out: "fst (writeLog flaky_engine record_with_pid None
            (snd (createTransport flaky_engine [example_record] empty_world)))
       = Some (IsError ''quota exceeded'')"
    unfolding writeLog_outcome [OF rn] createTransport_attempted createTransport_trace_agent
    by (simp add: flaky_engine_def empty_world_def)
  note T = transport_failure_isolation [where lc = flaky_engine and rs = three_records
      and w = empty_world and pre = "[example_record]" and r = record_with_pid
      and post = "[record_with_trace]" and t = "IsError ''quota exceeded''"
      and t' = "NotError ''quota exceeded''"]
  note c1 = T [THEN conjunct1]
  note c2 = T [THEN conjunct2, THEN conjunct1]
  note c6 = T [THEN conjunct2, THEN conjunct2, THEN conjunct2, THEN conjunct2, THEN conjunct2,
      THEN mp, OF conjI [OF rn conjI [OF sp conjI [OF rej acc]]]]
  have a2: "attempted (snd (createTransport flaky_engine three_records empty_world))
       = [writeLog_entry flaky_engine None example_record,
          writeLog_entry flaky_engine None record_with_pid,
          writeLog_entry flaky_engine None record_with_trace]"
    unfolding c2 by (simp add: empty_world_def three_records_def)
  have a6: "delivered (snd (createTransport flaky_engine three_records empty_world))
       = [writeLog_entry flaky_engine None example_record,
          writeLog_entry flaky_engine None record_with_trace]
     \<and> stderr_log (snd (createTransport flaky_engine three_records empty_world))
       = [IsError ''quota exceeded'']"
    unfolding c6 [THEN conjunct1] c6 [THEN conjunct2] by (simp add: empty_world_def)
  have r1: "cloudLog flaky_engine 1 (writeLog_entry flaky_engine None record_with_pid)
       = Some (NotError ''quota exceeded'')"
    by (simp add: flaky_engine_def)
  from rn sp r1 out c1 a2 a6 show ?thesis by (intro conjI) (elim conjE, assumption)+
qed


subsection \<open>Request-summary entries\<close>

text \<open>
  The entry of \<open>writeRequestLog\<close>: severity \<open>INFO\<close>, an empty body, no timestamp, the
  configured labels and the trace triple as given; for a positive \<open>latencyMs\<close> the request
  block has the latency split into whole seconds and a nanosecond remainder, and is the
  given block otherwise.
\<close>

lemma js_rem_nonneg: "0 \<le> a \<Longrightarrow> js_rem a 1000 = a mod 1000"
  by (cases "a = 0") (simp_all add: js_rem_def)

lemma writeRequestLog_entry_fields:
  "md_severity (entry_metadata (writeRequestLog_entry this req trc span sampled latencyMs)) = INFO"
  "entry_data (writeRequestLog_entry this req trc span sampled latencyMs) = []"
  "md_timestamp (entry_metadata (writeRequestLog_entry this req trc span sampled latencyMs)) = None"
  "md_labels (entry_metadata (writeRequestLog_entry this req trc span sampled latencyMs))
     = common_labels this"
  "md_trace (entry_metadata (writeRequestLog_entry this req trc span sampled latencyMs)) = trc"
  "md_spanId (entry_metadata (writeRequestLog_entry this req trc span sampled latencyMs)) = span"
  "md_traceSampled (entry_metadata (writeRequestLog_entry this req trc span sampled latencyMs))
     = sampled"
  by (simp_all add: writeRequestLog_entry_def)

lemma writeRequestLog_entry_latency:
  assumes "0 < l"
  shows "\<exists>block. md_httpRequest (entry_metadata
             (writeRequestLog_entry this req trc span sampled (Some l))) = Some block
     \<and> map_of block ''latency'' =
         Some (JObj [(''seconds'', JNum (l div 1000)), (''nanos'', JNum (l mod 1000 * 1000000))])
     \<and> (\<forall>k. k \<noteq> ''latency'' \<longrightarrow> map_of block k = map_of req k)"
  using assms
  by (simp add: writeRequestLog_entry_def truthy_num_def update_conv' js_rem_nonneg)

lemma writeRequestLog_attempted:
  "attempted (snd (writeRequestLog this req trc span sampled latencyMs w)) =
     attempted w @ [writeRequestLog_entry this req trc span sampled latencyMs]"
  by (simp add: writeRequestLog_def cloudLog_write_fields)

text \<open>
  C8. For \<^verbatim>\<open>latencyMs = 0\<close> the entry written by \<open>writeRequestLog\<close> has severity \<open>INFO\<close>, an
  empty body, the trace triple and the configured labels, but no latency split: the guard
  on \<^verbatim>\<open>latencyMs\<close> is a truthiness test, so the request block gets \<^verbatim>\<open>latency: undefined\<close>
  where the split of a given \<^verbatim>\<open>latencyMs\<close> would be \<^verbatim>\<open>{seconds: 0, nanos: 0}\<close>, and the
  latency the block came with is lost.
\<close>

theorem writeRequestLog_zero_latency:
  "attempted (snd (writeRequestLog example_engine finished_request
      (Some ''projects/proj/traces/abc'') (Some ''7'') (Some False) (Some 0) empty_world))
   = [\<lparr>entry_metadata =
         \<lparr>md_severity = INFO, md_timestamp = None, md_labels = None,
          md_trace = Some ''projects/proj/traces/abc'', md_spanId = Some ''7'',
          md_traceSampled = Some False,
          md_httpRequest =
            Some [(''requestMethod'', JStr ''GET''), (''status'', JNum 200),
                  (''latency'', JUndefined)]\<rparr>,
        entry_data = []\<rparr>]"
  by (simp add: writeRequestLog_attempted writeRequestLog_entry_def truthy_num_def
      finished_request_def example_engine_def empty_world_def)


end
